theory Spec2Isabelle
  imports Main "HOL-Library.Word"
begin

text \<open>
  A model of the core of the ESP bus (\<open>esp_bus.c\<close>, \<open>esp_bus_msg.c\<close>,
  \<open>esp_bus_svc.c\<close>): the pattern matcher and the address parser, the registries of
  modules, subscriptions, routes and timers, the resolution of requests, the dispatch of
  events, the worker's message step, the public calls that enqueue, and the timer sweep.

  Every function of the source is a function here, under its name. The global state is
  passed in and returned. What a function does outside the state (callbacks, error
  reports, \<open>malloc\<close> and \<open>free\<close>, semaphores) is returned as a list of effects in
  program order. What the allocator, the kernel and the clock answer is a parameter of
  the function that asks.
\<close>

section \<open>Strings and constants\<close>

text \<open>
  A C string is modelled as the list of its characters before the terminating NUL, so
  \<open>*p == '\0'\<close> is \<open>p = []\<close> and \<open>p++\<close> is \<open>tl p\<close>. The two bounds are the
  defaults of \<open>esp_bus.h\<close>; each counts the terminating NUL.
\<close>

definition ESP_BUS_NAME_MAX :: nat where
  "ESP_BUS_NAME_MAX = 16"

definition ESP_BUS_PATTERN_MAX :: nat where
  "ESP_BUS_PATTERN_MAX = 32"

definition star :: char where
  "star = CHR ''*''"

section \<open>Pattern matcher (esp\_bus.c)\<close>

text \<open>The trailing \<open>while (*p == '*') p++;\<close> of \<open>esp_bus_match_pattern\<close>.\<close>

fun skip_stars :: "string \<Rightarrow> string" where
  "skip_stars [] = []"
| "skip_stars (c # p) = (if c = star then skip_stars p else c # p)"

text \<open>
  \<open>esp_bus_match_pattern\<close>: the outer \<open>while (*p && *t)\<close> loop is the recursion of
  \<open>esp_bus_match_pattern\<close> itself; \<open>match_scan p t\<close> is the inner \<open>while (*t)\<close> loop
  entered after a star, which calls the matcher on every non-empty suffix of the target.
  The first two equations are the exits of the outer loop, at the end of the pattern and
  at the end of the target: the stars left are skipped and both strings must be at their
  end.
\<close>

fun esp_bus_match_pattern :: "string \<Rightarrow> string \<Rightarrow> bool"
  and match_scan :: "string \<Rightarrow> string \<Rightarrow> bool" where
  "esp_bus_match_pattern [] t = (skip_stars [] = [] \<and> t = [])"
| "esp_bus_match_pattern (c # p) [] = (skip_stars (c # p) = [] \<and> True)"
| "esp_bus_match_pattern (c # p) (d # t) =
     (if c = star then
        (if p = [] then True else match_scan p (d # t))
      else if c \<noteq> d then False
      else esp_bus_match_pattern p t)"
| "match_scan p [] = False"
| "match_scan p (d # t) =
     (if esp_bus_match_pattern p (d # t) then True else match_scan p t)"

text \<open>
  The glob language of a pattern, written from the specification: a star stands for any
  string (also the empty one), every other character for itself, and the pattern has to
  account for the whole text.
\<close>

fun glob_lang :: "string \<Rightarrow> string set" where
  "glob_lang [] = {[]}"
| "glob_lang (c # p) =
     (if c = star then {u @ v |u v. v \<in> glob_lang p} else {c # v |v. v \<in> glob_lang p})"


section \<open>Address parser (esp\_bus.c)\<close>

text \<open>\<open>strchr\<close>: the offset of the first occurrence of a character, \<open>None\<close> for \<open>NULL\<close>.\<close>

fun strchr :: "string \<Rightarrow> char \<Rightarrow> nat option" where
  "strchr [] c = None"
| "strchr (x # s) c = (if x = c then Some 0 else map_option Suc (strchr s c))"

text \<open>
  \<open>esp_bus_parse_pattern\<close>. The three output parameters are written only on the paths
  that return \<open>true\<close>, so the result is \<open>None\<close> for \<open>false\<close> and otherwise the triple
  (module, action, sep). \<open>strncpy (dst, src, n)\<close> followed by \<open>dst[n] = '\0'\<close> leaves the
  first \<open>n\<close> characters of \<open>src\<close>, that is \<open>take n src\<close>. The separator of a bare token
  is the NUL character.
\<close>

definition esp_bus_parse_pattern :: "string \<Rightarrow> (string \<times> string \<times> char) option" where
  "esp_bus_parse_pattern pattern =
     (case strchr pattern (CHR ''.'') of
        Some len \<Rightarrow>
          if len \<ge> ESP_BUS_NAME_MAX then None
          else Some (take len pattern,
                     take (ESP_BUS_NAME_MAX - 1) (drop (len + 1) pattern), CHR ''.'')
      | None \<Rightarrow>
         (case strchr pattern (CHR '':'') of
            Some len \<Rightarrow>
              if len \<ge> ESP_BUS_NAME_MAX then None
              else Some (take len pattern,
                         take (ESP_BUS_NAME_MAX - 1) (drop (len + 1) pattern), CHR '':'')
          | None \<Rightarrow> Some (take (ESP_BUS_NAME_MAX - 1) pattern, [], CHR 0x00)))"

text \<open>
  The parser as the specification words it: split at the first character that is a dot
  or a colon, whichever comes first; the module is the text before it, the action all the
  text after it; a token with neither is the module, whole; a module segment of
  \<open>ESP_BUS_NAME_MAX\<close> characters or more makes parsing fail.
\<close>

fun first_sep :: "string \<Rightarrow> nat option" where
  "first_sep [] = None"
| "first_sep (x # s) =
     (if x = CHR ''.'' \<or> x = CHR '':'' then Some 0 else map_option Suc (first_sep s))"

definition parse_pattern_spec :: "string \<Rightarrow> (string \<times> string \<times> char) option" where
  "parse_pattern_spec s =
     (case first_sep s of
        Some i \<Rightarrow> if i \<ge> ESP_BUS_NAME_MAX then None
                  else Some (take i s, drop (i + 1) s, s ! i)
      | None \<Rightarrow> if length s \<ge> ESP_BUS_NAME_MAX then None else Some (s, [], CHR 0x00))"


section \<open>Data model (esp\_bus.h, esp\_bus\_priv.h)\<close>

text \<open>
  Pointers that the bus only stores and hands on (contexts, response buffers, handles of
  semaphores and tasks, addresses of void callbacks) are opaque values of type \<open>ptr\<close>;
  \<open>None\<close> is \<open>NULL\<close>. A payload buffer is modelled by the bytes it holds. The fields
  of a struct carry a prefix that names the struct, since the fields of all records share
  one name space.
\<close>

type_synonym ptr = nat
type_synonym byte = "8 word"

text \<open>The \<open>esp_err_t\<close> codes of the platform that the bus and its handlers return.\<close>

datatype esp_err_t =
    ESP_OK | ESP_FAIL | ESP_ERR_NO_MEM | ESP_ERR_INVALID_ARG | ESP_ERR_INVALID_STATE
  | ESP_ERR_INVALID_SIZE | ESP_ERR_NOT_FOUND | ESP_ERR_NOT_SUPPORTED | ESP_ERR_TIMEOUT

text \<open>
  The arguments of one call of an \<open>esp_bus_req_fn\<close>, and what the callee hands back:
  its return value, the bytes it stored in the response buffer and the value it stored
  through \<open>res_len\<close> (\<open>None\<close> where it stored nothing).
\<close>

record req_call =
  rc_action :: string
  rc_req :: "byte list option"
  rc_req_len :: nat
  rc_res :: "ptr option"
  rc_res_size :: nat
  rc_res_len :: "ptr option"
  rc_ctx :: "ptr option"

record req_ret =
  ret_err :: esp_err_t
  ret_res :: "byte list option"
  ret_res_len :: "nat option"

type_synonym esp_bus_req_fn = "req_call \<Rightarrow> req_ret"

text \<open>
  An \<open>esp_bus_transform_fn\<close> receives the event, its payload and the context, and
  answers through \<open>out_req\<close>, \<open>out_data\<close> and \<open>out_len\<close>, all three initialised to
  \<open>NULL\<close>, \<open>NULL\<close> and 0 by the caller.
\<close>

record transform_out =
  out_req :: "string option"
  out_data :: "byte list option"
  out_len :: nat

type_synonym esp_bus_transform_fn =
  "string \<Rightarrow> byte list option \<Rightarrow> nat \<Rightarrow> ptr option \<Rightarrow> transform_out"

record esp_bus_module_t =
  cfg_name :: "string option"
  cfg_on_req :: "esp_bus_req_fn option"
  cfg_on_evt :: "ptr option"
  cfg_ctx :: "ptr option"
  cfg_actions :: "string list option"
  cfg_events :: "string list option"

record module_node =
  mod_name :: string
  mod_on_req :: "esp_bus_req_fn option"
  mod_on_evt :: "ptr option"
  mod_ctx :: "ptr option"
  mod_actions :: "string list option"
  mod_events :: "string list option"

record sub_node =
  sub_id :: int
  sub_pattern :: string
  sub_handler :: ptr
  sub_ctx :: "ptr option"

record route_node =
  route_evt_pattern :: string
  route_req_pattern :: string
  route_req_data :: "byte list option"
  route_req_len :: nat
  route_transform :: "esp_bus_transform_fn option"
  route_ctx :: "ptr option"

record svc_node =
  svc_id :: int
  svc_fn :: ptr
  svc_ctx :: "ptr option"
  svc_interval_ms :: nat
  svc_next_run_us :: int
  svc_repeat :: bool

datatype msg_type_t = MSG_REQ | MSG_EVT | MSG_TRIGGER

record message_t =
  msg_type :: msg_type_t
  msg_pattern :: string
  msg_data :: "byte list option"
  msg_len :: nat
  msg_res_buf :: "ptr option"
  msg_res_size :: nat
  msg_res_len :: "ptr option"
  msg_result :: "ptr option"
  msg_done :: "ptr option"

text \<open>
  The global \<open>g_bus\<close>. Each \<open>SLIST\<close> is the list of its nodes from the head on, the
  queue is the list of its pending items, oldest first. The mutex is left out: the model
  is sequential, every operation runs from its \<open>xSemaphoreTake\<close> to its
  \<open>xSemaphoreGive\<close> undisturbed.
\<close>

record esp_bus_state_t =
  initialized :: bool
  strict :: bool
  log_level :: nat
  on_err :: "ptr option"
  modules :: "module_node list"
  subs :: "sub_node list"
  routes :: "route_node list"
  services :: "svc_node list"
  next_sub_id :: int
  next_svc_id :: int
  queue :: "message_t list"
  task :: "ptr option"

text \<open>The platform's \<open>ESP_LOG_WARN\<close> level.\<close>

definition ESP_LOG_WARN :: nat where
  "ESP_LOG_WARN = 2"

text \<open>
  What an operation does to the world outside \<open>g_bus\<close>, in the order it does it: calls
  of callbacks, the warning of \<open>esp_bus_report_error\<close>, allocation and release of payload
  buffers and of semaphores, and the worker's store through \<open>msg->result\<close>. A call
  of a callback is recorded with its arguments; what a timer callback does to the bus in
  turn is part of the sweep, below. Debug and info logging is left out.
\<close>

datatype effect =
    Call_on_req string req_call
  | Call_sub_handler int ptr string "byte list option" nat "ptr option"
  | Call_transform string string "byte list option" nat "ptr option"
  | Call_svc_fn int ptr "ptr option"
  | Call_on_err ptr string esp_err_t string
  | Log_warn string esp_err_t string
  | Malloc "byte list"
  | Free "byte list"
  | Sem_create ptr
  | Sem_give ptr
  | Sem_delete ptr
  | Store_result ptr esp_err_t


section \<open>Helpers (esp\_bus.c)\<close>

text \<open>\<open>esp_bus_find_module\<close>: the first node whose stored name equals the argument.\<close>

fun find_module_from :: "module_node list \<Rightarrow> string \<Rightarrow> module_node option" where
  "find_module_from [] name = None"
| "find_module_from (node # rest) name =
     (if mod_name node = name then Some node else find_module_from rest name)"

definition esp_bus_find_module :: "esp_bus_state_t \<Rightarrow> string \<Rightarrow> module_node option" where
  "esp_bus_find_module st name = find_module_from (modules st) name"

definition esp_bus_report_error ::
  "esp_bus_state_t \<Rightarrow> string \<Rightarrow> esp_err_t \<Rightarrow> string \<Rightarrow> effect list" where
  "esp_bus_report_error st pattern err msg =
     (if log_level st \<le> ESP_LOG_WARN then [Log_warn pattern err msg] else []) @
     (case on_err st of Some cb \<Rightarrow> [Call_on_err cb pattern err msg] | None \<Rightarrow> [])"

text \<open>\<open>if (p) free(p);\<close>\<close>

definition free_data :: "byte list option \<Rightarrow> effect list" where
  "free_data d = (case d of Some b \<Rightarrow> [Free b] | None \<Rightarrow> [])"

section \<open>Request processing (esp\_bus\_msg.c)\<close>

text \<open>A return on a path that stores nothing through \<open>res\<close> or \<open>res_len\<close>.\<close>

definition ret_only :: "esp_err_t \<Rightarrow> req_ret" where
  "ret_only e = \<lparr>ret_err = e, ret_res = None, ret_res_len = None\<rparr>"

definition esp_bus_process_request ::
  "esp_bus_state_t \<Rightarrow> string \<Rightarrow> byte list option \<Rightarrow> nat \<Rightarrow> ptr option \<Rightarrow> nat \<Rightarrow> ptr option
     \<Rightarrow> req_ret \<times> effect list" where
  "esp_bus_process_request st pattern req req_len res res_size res_len =
     (case esp_bus_parse_pattern pattern of
        None \<Rightarrow>
          (ret_only ESP_ERR_INVALID_ARG,
           esp_bus_report_error st pattern ESP_ERR_INVALID_ARG ''invalid pattern'')
      | Some (mname, action, sep) \<Rightarrow>
          if sep \<noteq> CHR ''.'' then
            (ret_only ESP_ERR_INVALID_ARG,
             esp_bus_report_error st pattern ESP_ERR_INVALID_ARG ''invalid pattern'')
          else
            (case esp_bus_find_module st mname of
               None \<Rightarrow>
                 if strict st then
                   (ret_only ESP_ERR_NOT_FOUND,
                    esp_bus_report_error st pattern ESP_ERR_NOT_FOUND ''module not found'')
                 else (ret_only ESP_OK, [])
             | Some md \<Rightarrow>
                (case mod_on_req md of
                   None \<Rightarrow>
                     (ret_only ESP_ERR_NOT_SUPPORTED,
                      esp_bus_report_error st pattern ESP_ERR_NOT_SUPPORTED ''no handler'')
                 | Some handler \<Rightarrow>
                     (let c = \<lparr>rc_action = action, rc_req = req, rc_req_len = req_len,
                                rc_res = res, rc_res_size = res_size, rc_res_len = res_len,
                                rc_ctx = mod_ctx md\<rparr>
                      in (handler c, [Call_on_req (mod_name md) c])))))"

section \<open>Event processing (esp\_bus\_msg.c)\<close>

text \<open>\<open>snprintf (full, ESP_BUS_PATTERN_MAX, "%s:%s", src, evt)\<close>\<close>

definition event_key :: "string \<Rightarrow> string \<Rightarrow> string" where
  "event_key src evt = take (ESP_BUS_PATTERN_MAX - 1) (src @ CHR '':'' # evt)"

text \<open>The first loop of \<open>esp_bus_dispatch_event\<close>, over the subscriptions.\<close>

fun dispatch_subs ::
  "sub_node list \<Rightarrow> string \<Rightarrow> string \<Rightarrow> byte list option \<Rightarrow> nat \<Rightarrow> effect list" where
  "dispatch_subs [] full evt data len = []"
| "dispatch_subs (sub # rest) full evt data len =
     (if esp_bus_match_pattern (sub_pattern sub) full
      then [Call_sub_handler (sub_id sub) (sub_handler sub) evt data len (sub_ctx sub)]
      else [])
     @ dispatch_subs rest full evt data len"

text \<open>The second loop, over the routes; the response of a routed request is dropped.\<close>

fun dispatch_routes ::
  "esp_bus_state_t \<Rightarrow> route_node list \<Rightarrow> string \<Rightarrow> string \<Rightarrow> byte list option \<Rightarrow> nat
     \<Rightarrow> effect list" where
  "dispatch_routes st [] full evt data len = []"
| "dispatch_routes st (r # rest) full evt data len =
     (if \<not> esp_bus_match_pattern (route_evt_pattern r) full then []
      else
        (case route_transform r of
           Some transform \<Rightarrow>
             (let out = transform evt data len (route_ctx r)
              in Call_transform (route_evt_pattern r) evt data len (route_ctx r) #
                 (case out_req out of
                    Some q \<Rightarrow>
                      snd (esp_bus_process_request st q (out_data out) (out_len out) None 0 None)
                  | None \<Rightarrow> []))
         | None \<Rightarrow>
             snd (esp_bus_process_request st (route_req_pattern r) (route_req_data r)
                    (route_req_len r) None 0 None)))
     @ dispatch_routes st rest full evt data len"

definition esp_bus_dispatch_event ::
  "esp_bus_state_t \<Rightarrow> string \<Rightarrow> string \<Rightarrow> byte list option \<Rightarrow> nat \<Rightarrow> effect list" where
  "esp_bus_dispatch_event st src evt data len =
     (let full = event_key src evt
      in dispatch_subs (subs st) full evt data len @
         dispatch_routes st (routes st) full evt data len)"

section \<open>The worker's message step (esp\_bus.c)\<close>

definition process_message :: "esp_bus_state_t \<Rightarrow> message_t \<Rightarrow> effect list" where
  "process_message st msg =
     (case msg_type msg of
        MSG_REQ \<Rightarrow>
          (let (r, tr) = esp_bus_process_request st (msg_pattern msg) (msg_data msg)
                           (msg_len msg) (msg_res_buf msg) (msg_res_size msg) (msg_res_len msg)
           in tr @
              (case msg_result msg of Some p \<Rightarrow> [Store_result p (ret_err r)] | None \<Rightarrow> []) @
              (case msg_done msg of Some s \<Rightarrow> [Sem_give s] | None \<Rightarrow> []) @
              free_data (msg_data msg))
      | MSG_EVT \<Rightarrow>
          (case esp_bus_parse_pattern (msg_pattern msg) of
             Some (mname, event, sep) \<Rightarrow>
               if sep = CHR '':''
               then esp_bus_dispatch_event st mname event (msg_data msg) (msg_len msg)
               else []
           | None \<Rightarrow> []) @
          free_data (msg_data msg)
      | MSG_TRIGGER \<Rightarrow> [])"


section \<open>Public API: requests (esp\_bus\_msg.c)\<close>

text \<open>
  The answers of the allocator and of the kernel during one call of \<open>esp_bus_req\<close>: the
  handle of the calling task, whether \<open>malloc\<close> returns a buffer, the handle returned by
  \<open>xSemaphoreCreateBinary\<close> (\<open>None\<close> when it fails), the address of the local
  \<open>result\<close>, whether \<open>xQueueSend\<close> places the item within its timeout, and the outcome
  of \<open>xSemaphoreTake\<close>: \<open>Some e\<close> when the worker has stored \<open>e\<close> through
  \<open>msg->result\<close> and given the semaphore in time, \<open>None\<close> when the wait expires.
\<close>

record req_env =
  env_current_task :: "ptr option"
  env_malloc_ok :: bool
  env_sem :: "ptr option"
  env_result_slot :: ptr
  env_send_ok :: bool
  env_taken :: "esp_err_t option"

text \<open>
  \<open>esp_bus_req\<close>. \<open>memcpy (msg.data, req, req_len)\<close> copies the first \<open>req_len\<close> bytes
  of the caller's buffer. The returned state is the bus after the enqueue; the effects are
  those of the calling task (of the worker itself on the direct path).
\<close>

definition esp_bus_req ::
  "esp_bus_state_t \<Rightarrow> req_env \<Rightarrow> string option \<Rightarrow> byte list option \<Rightarrow> nat \<Rightarrow> ptr option \<Rightarrow> nat
     \<Rightarrow> ptr option \<Rightarrow> nat \<Rightarrow> req_ret \<times> esp_bus_state_t \<times> effect list" where
  "esp_bus_req st env pattern req req_len res res_size res_len timeout_ms =
     (case pattern of
        None \<Rightarrow> (ret_only ESP_ERR_INVALID_ARG, st, [])
      | Some pat \<Rightarrow>
          if \<not> initialized st then (ret_only ESP_ERR_INVALID_ARG, st, [])
          else if env_current_task env = task st then
            (let (r, tr) = esp_bus_process_request st pat req req_len res res_size res_len
             in (r, st, tr))
          else
            (let msg0 = \<lparr>msg_type = MSG_REQ,
                         msg_pattern = take (ESP_BUS_PATTERN_MAX - 1) pat,
                         msg_data = None, msg_len = 0,
                         msg_res_buf = res, msg_res_size = res_size, msg_res_len = res_len,
                         msg_result = None, msg_done = None\<rparr>;
                 copy = (req \<noteq> None \<and> req_len > 0)
             in if copy \<and> \<not> env_malloc_ok env then (ret_only ESP_ERR_NO_MEM, st, [])
                else
                  (let msg1 = (if copy
                               then msg0\<lparr>msg_data := Some (take req_len (the req)),
                                         msg_len := req_len\<rparr>
                               else msg0);
                       tr1 = (if copy then [Malloc (take req_len (the req))] else []);
                       done = (if timeout_ms > 0 then env_sem env else None);
                       msg2 = (if timeout_ms > 0
                               then msg1\<lparr>msg_done := done,
                                         msg_result := Some (env_result_slot env)\<rparr>
                               else msg1);
                       tr2 = tr1 @ (case done of Some s \<Rightarrow> [Sem_create s] | None \<Rightarrow> [])
                   in if \<not> env_send_ok env then
                        (ret_only ESP_ERR_TIMEOUT, st,
                         tr2 @ free_data (msg_data msg2) @
                         (case done of Some s \<Rightarrow> [Sem_delete s] | None \<Rightarrow> []))
                      else
                        (let st' = st\<lparr>queue := queue st @ [msg2]\<rparr>
                         in case done of
                              None \<Rightarrow> (ret_only ESP_OK, st', tr2)
                            | Some s \<Rightarrow>
                               (case env_taken env of
                                  None \<Rightarrow> (ret_only ESP_ERR_TIMEOUT, st', tr2 @ [Sem_delete s])
                                | Some e \<Rightarrow> (ret_only e, st', tr2 @ [Sem_delete s]))))))"

section \<open>Public API: events and routes (esp\_bus\_msg.c)\<close>

text \<open>
  \<open>esp_bus_emit\<close>; \<open>malloc_ok\<close> and \<open>send_ok\<close> are the answers of \<open>malloc\<close> and of
  the non-blocking \<open>xQueueSend\<close>.
\<close>

definition esp_bus_emit ::
  "esp_bus_state_t \<Rightarrow> bool \<Rightarrow> bool \<Rightarrow> string option \<Rightarrow> string option \<Rightarrow> byte list option \<Rightarrow> nat
     \<Rightarrow> esp_err_t \<times> esp_bus_state_t \<times> effect list" where
  "esp_bus_emit st malloc_ok send_ok src evt data len =
     (case (src, evt) of
        (Some s, Some e) \<Rightarrow>
          if \<not> initialized st then (ESP_ERR_INVALID_ARG, st, [])
          else
            (let msg0 = \<lparr>msg_type = MSG_EVT, msg_pattern = event_key s e,
                         msg_data = None, msg_len = 0,
                         msg_res_buf = None, msg_res_size = 0, msg_res_len = None,
                         msg_result = None, msg_done = None\<rparr>;
                 copy = (data \<noteq> None \<and> len > 0)
             in if copy \<and> \<not> malloc_ok then (ESP_ERR_NO_MEM, st, [])
                else
                  (let msg1 = (if copy
                               then msg0\<lparr>msg_data := Some (take len (the data)),
                                         msg_len := len\<rparr>
                               else msg0);
                       tr1 = (if copy then [Malloc (take len (the data))] else [])
                   in if \<not> send_ok
                      then (ESP_ERR_TIMEOUT, st, tr1 @ free_data (msg_data msg1))
                      else (ESP_OK, st\<lparr>queue := queue st @ [msg1]\<rparr>, tr1)))
      | _ \<Rightarrow> (ESP_ERR_INVALID_ARG, st, []))"

text \<open>
  \<open>esp_bus_on\<close>; \<open>calloc_ok\<close> is the answer of \<open>calloc\<close> for the node, \<open>malloc_ok\<close>
  that of \<open>malloc\<close> for the copy of the payload.
\<close>

definition esp_bus_on ::
  "esp_bus_state_t \<Rightarrow> bool \<Rightarrow> bool \<Rightarrow> string option \<Rightarrow> string option \<Rightarrow> byte list option \<Rightarrow> nat
     \<Rightarrow> esp_err_t \<times> esp_bus_state_t \<times> effect list" where
  "esp_bus_on st calloc_ok malloc_ok evt_pattern req_pattern req_data req_len =
     (case (evt_pattern, req_pattern) of
        (Some ep, Some rp) \<Rightarrow>
          if \<not> initialized st then (ESP_ERR_INVALID_ARG, st, [])
          else if \<not> calloc_ok then (ESP_ERR_NO_MEM, st, [])
          else
            (let node0 = \<lparr>route_evt_pattern = take (ESP_BUS_PATTERN_MAX - 1) ep,
                          route_req_pattern = take (ESP_BUS_PATTERN_MAX - 1) rp,
                          route_req_data = None, route_req_len = 0,
                          route_transform = None, route_ctx = None\<rparr>;
                 copied = (req_data \<noteq> None \<and> req_len > 0 \<and> malloc_ok);
                 node = (if copied
                         then node0\<lparr>route_req_data := Some (take req_len (the req_data)),
                                    route_req_len := req_len\<rparr>
                         else node0);
                 tr = (if copied then [Malloc (take req_len (the req_data))] else [])
             in (ESP_OK, st\<lparr>routes := node # routes st\<rparr>, tr))
      | _ \<Rightarrow> (ESP_ERR_INVALID_ARG, st, []))"

text \<open>
  The loop of \<open>esp_bus_off\<close>: the routes that stay, in their order, and the payloads
  released along the way.
\<close>

fun off_loop :: "route_node list \<Rightarrow> string \<Rightarrow> string option \<Rightarrow> route_node list \<times> effect list" where
  "off_loop [] ep rp = ([], [])"
| "off_loop (r # rest) ep rp =
     (let (kept, tr) = off_loop rest ep rp
      in if route_evt_pattern r = ep then
           (if rp = None \<or> route_req_pattern r = the rp
            then (kept, free_data (route_req_data r) @ tr)
            else (r # kept, tr))
         else (r # kept, tr))"

definition esp_bus_off ::
  "esp_bus_state_t \<Rightarrow> string option \<Rightarrow> string option
     \<Rightarrow> esp_err_t \<times> esp_bus_state_t \<times> effect list" where
  "esp_bus_off st evt_pattern req_pattern =
     (case evt_pattern of
        None \<Rightarrow> (ESP_ERR_INVALID_ARG, st, [])
      | Some ep \<Rightarrow>
          if \<not> initialized st then (ESP_ERR_INVALID_ARG, st, [])
          else (let (kept, tr) = off_loop (routes st) ep req_pattern
                in (ESP_OK, st\<lparr>routes := kept\<rparr>, tr)))"

section \<open>Module registration and query (esp\_bus.c)\<close>

definition esp_bus_reg ::
  "esp_bus_state_t \<Rightarrow> bool \<Rightarrow> esp_bus_module_t option \<Rightarrow> esp_err_t \<times> esp_bus_state_t" where
  "esp_bus_reg st calloc_ok module =
     (case module of
        None \<Rightarrow> (ESP_ERR_INVALID_ARG, st)
      | Some m \<Rightarrow>
         (case cfg_name m of
            None \<Rightarrow> (ESP_ERR_INVALID_ARG, st)
          | Some name \<Rightarrow>
              if \<not> initialized st then (ESP_ERR_INVALID_ARG, st)
              else if esp_bus_find_module st name \<noteq> None then (ESP_ERR_INVALID_STATE, st)
              else if \<not> calloc_ok then (ESP_ERR_NO_MEM, st)
              else
                (let node = \<lparr>mod_name = take (ESP_BUS_NAME_MAX - 1) name,
                             mod_on_req = cfg_on_req m, mod_on_evt = cfg_on_evt m,
                             mod_ctx = cfg_ctx m,
                             mod_actions = cfg_actions m, mod_events = cfg_events m\<rparr>
                 in (ESP_OK, st\<lparr>modules := node # modules st\<rparr>))))"

definition esp_bus_exists :: "esp_bus_state_t \<Rightarrow> string option \<Rightarrow> bool" where
  "esp_bus_exists st module =
     (case module of
        None \<Rightarrow> False
      | Some name \<Rightarrow> initialized st \<and> esp_bus_find_module st name \<noteq> None)"


section \<open>Service loop (esp\_bus\_svc.c)\<close>

text \<open>
  Times are \<open>int64_t\<close> microseconds. They are integers here, and the result of each
  addition and subtraction is brought back into the 64-bit two's-complement range by
  \<open>int64\<close>. \<open>c_div\<close> is the division of C, which truncates towards zero, and
  \<open>uint32\<close> the conversion to \<open>uint32_t\<close>.
\<close>

definition int64 :: "int \<Rightarrow> int" where
  "int64 x = (x + 2 ^ 63) mod 2 ^ 64 - 2 ^ 63"

definition c_div :: "int \<Rightarrow> int \<Rightarrow> int" where
  "c_div a b = sgn a * sgn b * (\<bar>a\<bar> div \<bar>b\<bar>)"

definition uint32 :: "int \<Rightarrow> nat" where
  "uint32 x = nat (x mod 2 ^ 32)"

text \<open>The loop of \<open>esp_bus_calc_next_wait\<close>, with \<open>min_wait\<close> as accumulator.\<close>

fun next_wait_loop :: "svc_node list \<Rightarrow> int \<Rightarrow> int \<Rightarrow> int" where
  "next_wait_loop [] now min_wait = min_wait"
| "next_wait_loop (s # rest) now min_wait =
     (if svc_next_run_us s > 0 then
        (let wait0 = int64 (svc_next_run_us s - now);
             wait = (if wait0 < 1000 then 1000 else wait0)
         in next_wait_loop rest now (if wait < min_wait then wait else min_wait))
      else next_wait_loop rest now min_wait)"

definition esp_bus_calc_next_wait :: "esp_bus_state_t \<Rightarrow> int \<Rightarrow> nat" where
  "esp_bus_calc_next_wait st now =
     (let min_wait = next_wait_loop (services st) now 100000;
          wait_ms = uint32 (c_div min_wait 1000)
      in if wait_ms > 0 then wait_ms else 1)"

text \<open>
  \<open>esp_bus_trigger\<close> posts a wake-up item without waiting; \<open>send_ok\<close> is the answer of
  \<open>xQueueSend\<close>, which the function ignores.
\<close>

definition esp_bus_trigger :: "esp_bus_state_t \<Rightarrow> bool \<Rightarrow> esp_bus_state_t" where
  "esp_bus_trigger st send_ok =
     (if \<not> initialized st then st
      else if send_ok then
        st\<lparr>queue := queue st @
             [\<lparr>msg_type = MSG_TRIGGER, msg_pattern = [], msg_data = None, msg_len = 0,
               msg_res_buf = None, msg_res_size = 0, msg_res_len = None,
               msg_result = None, msg_done = None\<rparr>]\<rparr>
      else st)"

text \<open>
  \<open>add_service\<close>, the body of \<open>esp_bus_tick\<close>, \<open>esp_bus_after\<close> and
  \<open>esp_bus_every\<close>, called at time \<open>now\<close>; \<open>calloc_ok\<close> is the answer of \<open>calloc\<close>.
  It returns the new identifier, or \<open>-1\<close>. The counter \<open>next_svc_id\<close> is taken not to
  overflow.
\<close>

definition add_service ::
  "esp_bus_state_t \<Rightarrow> bool \<Rightarrow> bool \<Rightarrow> int \<Rightarrow> ptr option \<Rightarrow> nat \<Rightarrow> ptr option \<Rightarrow> bool
     \<Rightarrow> int \<times> esp_bus_state_t" where
  "add_service st calloc_ok send_ok now fn interval_ms ctx repeat =
     (case fn of
        None \<Rightarrow> (-1, st)
      | Some f \<Rightarrow>
          if \<not> initialized st then (-1, st)
          else if \<not> calloc_ok then (-1, st)
          else
            (let node = \<lparr>svc_id = next_svc_id st, svc_fn = f, svc_ctx = ctx,
                         svc_interval_ms = interval_ms,
                         svc_next_run_us = int64 (now + int interval_ms * 1000),
                         svc_repeat = repeat\<rparr>;
                 st1 = st\<lparr>services := node # services st,
                          next_svc_id := next_svc_id st + 1\<rparr>
             in (svc_id node, esp_bus_trigger st1 send_ok)))"

text \<open>
  \<open>remove_service\<close>, the body of \<open>esp_bus_cancel\<close> and \<open>esp_bus_tick_del\<close>: the
  first node with the identifier is unlinked and freed.
\<close>

fun remove_first :: "svc_node list \<Rightarrow> int \<Rightarrow> svc_node list" where
  "remove_first [] i = []"
| "remove_first (node # rest) i = (if svc_id node = i then rest else node # remove_first rest i)"

definition remove_service :: "esp_bus_state_t \<Rightarrow> int \<Rightarrow> esp_bus_state_t" where
  "remove_service st i =
     (if \<not> initialized st \<or> i < 0 then st
      else st\<lparr>services := remove_first (services st) i\<rparr>)"

text \<open>
  A timer callback runs on the worker, inside the sweep, and may call back into the bus
  (\<open>led_blink_step\<close> of \<open>esp_bus_led.c\<close> calls \<open>esp_bus_after\<close>). What it does to the
  bus is the list of its calls, in order: a call of \<open>esp_bus_tick\<close>, \<open>esp_bus_after\<close>
  or \<open>esp_bus_every\<close> (function, interval, context, repeat flag, and the answers of
  \<open>calloc\<close>, of \<open>xQueueSend\<close> and of the clock at that call), a call of
  \<open>esp_bus_cancel\<close> or \<open>esp_bus_tick_del\<close>, or any other call, which changes the bus in
  some way but cannot touch the timer registry or its counter: only
  \<open>add_service\<close> and \<open>remove_service\<close> edit them (and \<open>esp_bus_deinit\<close>, which
  deletes the worker itself).
\<close>

datatype svc_call =
    Call_add_service ptr nat "ptr option" bool bool bool int
  | Call_remove_service int
  | Call_other "esp_bus_state_t \<Rightarrow> esp_bus_state_t"

fun svc_call_step :: "esp_bus_state_t \<Rightarrow> svc_call \<Rightarrow> esp_bus_state_t" where
  "svc_call_step st (Call_add_service fn interval_ms ctx repeat calloc_ok send_ok now) =
     snd (add_service st calloc_ok send_ok now (Some fn) interval_ms ctx repeat)"
| "svc_call_step st (Call_remove_service i) = remove_service st i"
| "svc_call_step st (Call_other f) =
     (f st)\<lparr>services := services st, next_svc_id := next_svc_id st\<rparr>"

text \<open>Whether a call cancels a timer.\<close>

fun is_cancel :: "svc_call \<Rightarrow> bool" where
  "is_cancel (Call_remove_service i) = True"
| "is_cancel c = False"

text \<open>
  The code behind the timer callbacks: the calls that the callback of a node makes when
  it is run in a state of the bus.
\<close>

type_synonym svc_code = "svc_node \<Rightarrow> esp_bus_state_t \<Rightarrow> svc_call list"

definition run_callback :: "svc_code \<Rightarrow> svc_node \<Rightarrow> esp_bus_state_t \<Rightarrow> esp_bus_state_t" where
  "run_callback code s st = fold (\<lambda>c st'. svc_call_step st' c) (code s st) st"

text \<open>
  A node of the timer registry is a heap object, and the loop of the sweep holds two
  pointers into the list across the callback: \<open>s\<close>, the node being looked at, and
  \<open>tmp\<close>, its successor read before the body. A node is identified here by its
  identifier (identifiers are distinct, being drawn from a counter), and a pointer is
  dereferenced by \<open>find_svc\<close>, which finds nothing when the node has been unlinked and
  freed. The use of such a pointer is the fault.
\<close>

datatype fault = Use_after_free

fun find_svc :: "svc_node list \<Rightarrow> int \<Rightarrow> svc_node option" where
  "find_svc [] i = None"
| "find_svc (node # rest) i = (if svc_id node = i then Some node else find_svc rest i)"

text \<open>
  The first loop of \<open>esp_bus_run_services\<close>. The second argument lists the identifiers
  of the node \<open>s\<close> and of the nodes that followed it when the sweep began. New nodes are
  linked at the head only, so the successor of \<open>s\<close> at any time is the first of those
  that is still linked: that is \<open>tmp\<close>. The result is the bus after the loop and the
  timer callbacks called, in order, or the fault.
\<close>

function run_due ::
  "svc_code \<Rightarrow> esp_bus_state_t \<Rightarrow> int list \<Rightarrow> int \<Rightarrow> fault + esp_bus_state_t \<times> effect list" where
  "run_due code st [] now = Inr (st, [])"
| "run_due code st (i # rest) now =
     (case find_svc (services st) i of
        None \<Rightarrow> Inl Use_after_free
      | Some s \<Rightarrow>
         (let tmp = dropWhile (\<lambda>j. find_svc (services st) j = None) rest
          in if svc_next_run_us s \<le> 0 then run_due code st tmp now
             else if now \<ge> svc_next_run_us s then
               (let st1 = run_callback code s st
                in case find_svc (services st1) i of
                     None \<Rightarrow> Inl Use_after_free
                   | Some s1 \<Rightarrow>
                      (let next_run = (if svc_repeat s1
                                       then int64 (now + int (svc_interval_ms s1) * 1000)
                                       else 0);
                           st2 = st1\<lparr>services :=
                                   map (\<lambda>n. if svc_id n = i
                                             then n\<lparr>svc_next_run_us := next_run\<rparr> else n)
                                     (services st1)\<rparr>
                       in case run_due code st2 tmp now of
                            Inl e \<Rightarrow> Inl e
                          | Inr (st3, tr) \<Rightarrow>
                              Inr (st3, Call_svc_fn (svc_id s) (svc_fn s) (svc_ctx s) # tr)))
             else run_due code st tmp now))"
  by pat_completeness auto
termination
  by (relation "measure (\<lambda>(code, st, pending, now). length pending)")
     (auto simp: le_imp_less_Suc length_dropWhile_le)

text \<open>The second loop: expired one-shot timers are unlinked and freed.\<close>

fun cleanup_expired :: "svc_node list \<Rightarrow> svc_node list" where
  "cleanup_expired [] = []"
| "cleanup_expired (s # rest) =
     (if \<not> svc_repeat s \<and> svc_next_run_us s = 0 then cleanup_expired rest
      else s # cleanup_expired rest)"

definition esp_bus_run_services ::
  "svc_code \<Rightarrow> esp_bus_state_t \<Rightarrow> int \<Rightarrow> fault + esp_bus_state_t \<times> effect list" where
  "esp_bus_run_services code st now =
     (case run_due code st (map svc_id (services st)) now of
        Inl e \<Rightarrow> Inl e
      | Inr (st1, tr) \<Rightarrow> Inr (st1\<lparr>services := cleanup_expired (services st1)\<rparr>, tr))"

text \<open>The identifiers of the timers whose callbacks a trace calls, in order.\<close>

fun fired_ids :: "effect list \<Rightarrow> int list" where
  "fired_ids [] = []"
| "fired_ids (Call_svc_fn i f c # tr) = i # fired_ids tr"
| "fired_ids (e # tr) = fired_ids tr"

section \<open>An example configuration\<close>

text \<open>
  A bus with two modules (one echoing its request, one without a handler), a catch-all
  subscription, three static routes and three timers, used to run the theorems below on
  concrete inputs.
\<close>

definition demo_echo :: esp_bus_req_fn where
  "demo_echo c = \<lparr>ret_err = ESP_OK, ret_res = rc_req c, ret_res_len = Some (rc_req_len c)\<rparr>"

definition demo_bus :: esp_bus_state_t where
  "demo_bus = \<lparr>initialized = True, strict = False, log_level = 3, on_err = Some 9,
      modules = [\<lparr>mod_name = ''led1'', mod_on_req = Some demo_echo, mod_on_evt = None,
                  mod_ctx = Some 7, mod_actions = None, mod_events = None\<rparr>,
                 \<lparr>mod_name = ''mute'', mod_on_req = None, mod_on_evt = None,
                  mod_ctx = None, mod_actions = None, mod_events = None\<rparr>],
      subs = [\<lparr>sub_id = 0, sub_pattern = ''*'', sub_handler = 40, sub_ctx = None\<rparr>],
      routes = [\<lparr>route_evt_pattern = ''btn1:short'', route_req_pattern = ''led1.toggle'',
                 route_req_data = Some [1, 2], route_req_len = 2,
                 route_transform = None, route_ctx = None\<rparr>,
                \<lparr>route_evt_pattern = ''btn1:long'', route_req_pattern = ''led1.on'',
                 route_req_data = None, route_req_len = 0,
                 route_transform = None, route_ctx = None\<rparr>,
                \<lparr>route_evt_pattern = ''btn1:short'', route_req_pattern = ''led1.blink'',
                 route_req_data = Some [3], route_req_len = 1,
                 route_transform = None, route_ctx = None\<rparr>],
      services = [\<lparr>svc_id = 2, svc_fn = 50, svc_ctx = None, svc_interval_ms = 20,
                   svc_next_run_us = 30000, svc_repeat = True\<rparr>,
                  \<lparr>svc_id = 1, svc_fn = 51, svc_ctx = Some 8, svc_interval_ms = 5,
                   svc_next_run_us = 15000, svc_repeat = False\<rparr>,
                  \<lparr>svc_id = 0, svc_fn = 52, svc_ctx = None, svc_interval_ms = 10,
                   svc_next_run_us = 12000, svc_repeat = True\<rparr>],
      next_sub_id = 1, next_svc_id = 3, queue = [], task = Some 1\<rparr>"

text \<open>An event envelope with a one-byte payload.\<close>

definition demo_evt :: "string \<Rightarrow> message_t" where
  "demo_evt p = \<lparr>msg_type = MSG_EVT, msg_pattern = p, msg_data = Some [5], msg_len = 1,
       msg_res_buf = None, msg_res_size = 0, msg_res_len = None,
       msg_result = None, msg_done = None\<rparr>"

text \<open>A module description under a given name.\<close>

definition demo_module :: "string \<Rightarrow> esp_bus_req_fn option \<Rightarrow> esp_bus_module_t" where
  "demo_module name h = \<lparr>cfg_name = Some name, cfg_on_req = h, cfg_on_evt = None,
      cfg_ctx = Some 3, cfg_actions = None, cfg_events = None\<rparr>"

text \<open>
  Answers of the allocator and the kernel to a caller that is not the worker, and the
  request envelope such a caller enqueues.
\<close>

definition demo_env :: req_env where
  "demo_env = \<lparr>env_current_task = Some 2, env_malloc_ok = True, env_sem = Some 60,
                env_result_slot = 61, env_send_ok = True, env_taken = Some ESP_OK\<rparr>"

definition demo_req :: "ptr option \<Rightarrow> ptr option \<Rightarrow> message_t" where
  "demo_req result done =
     \<lparr>msg_type = MSG_REQ, msg_pattern = ''led1.on'', msg_data = Some [1, 2], msg_len = 2,
      msg_res_buf = None, msg_res_size = 0, msg_res_len = None,
      msg_result = result, msg_done = done\<rparr>"

text \<open>
  Two timer callbacks: one that registers a one-shot timer when timer 1 fires, as a
  blinking LED does, and one that cancels the timer it was called for.
\<close>

definition demo_blink :: svc_code where
  "demo_blink s st =
     (if svc_id s = 1 then [Call_add_service 51 7 (Some 8) False True True 20040] else [])"

definition demo_stop_self :: svc_code where
  "demo_stop_self s st = [Call_remove_service (svc_id s)]"

section \<open>Shared lemmas\<close>

text \<open>\<open>strchr\<close> finds a character exactly when the string has it.\<close>

lemma strchr_append: "c \<notin> set m \<Longrightarrow> strchr (m @ c # a) c = Some (length m)"
  by (induction m) auto

lemma strchr_None: "c \<notin> set s \<Longrightarrow> strchr s c = None"
  by (induction s) auto

lemma strchr_Some: "c \<in> set s \<Longrightarrow> \<exists>i. strchr s c = Some i"
  by (induction s) auto

text \<open>A value in the range of \<open>int64_t\<close> is not changed by the wrap-around.\<close>

lemma int64_id: "- (2 ^ 63) \<le> x \<Longrightarrow> x < 2 ^ 63 \<Longrightarrow> int64 x = x"
  by (simp add: int64_def)

text \<open>The unfoldings that evaluate the example configuration.\<close>

lemmas demo_simps = demo_bus_def demo_echo_def ESP_BUS_NAME_MAX_def ESP_BUS_PATTERN_MAX_def
  esp_bus_find_module_def esp_bus_report_error_def ESP_LOG_WARN_def ret_only_def

text \<open>The unfoldings that evaluate the service loop on the example.\<close>

lemmas svc_eval = demo_simps esp_bus_calc_next_wait_def int64_def c_div_def uint32_def Let_def

section \<open>The matcher decides the glob language\<close>

lemma skip_stars_nil_iff: "(skip_stars p = []) = ([] \<in> glob_lang p)"
  by (induction p) auto

lemma glob_lang_nil_all: "[] \<in> glob_lang p \<Longrightarrow> p \<noteq> [] \<Longrightarrow> w \<in> glob_lang p"
proof (cases p)
  case Nil
  assume "p \<noteq> []" with Nil show ?thesis by simp
next
  case (Cons c q)
  assume "[] \<in> glob_lang p"
  with Cons have "c = star" and "[] \<in> glob_lang q" by (auto split: if_splits)
  then have "w @ [] \<in> glob_lang (star # q)" by auto
  with Cons \<open>c = star\<close> show ?thesis by simp
qed

lemma nonempty_suffix_Cons:
  "(\<exists>u v. d # t = u @ v \<and> v \<noteq> [] \<and> v \<in> L) =
     (d # t \<in> L \<or> (\<exists>u v. t = u @ v \<and> v \<noteq> [] \<and> v \<in> L))"
proof
  assume "\<exists>u v. d # t = u @ v \<and> v \<noteq> [] \<and> v \<in> L"
  then obtain u v where uv: "d # t = u @ v" "v \<noteq> []" "v \<in> L" by blast
  show "d # t \<in> L \<or> (\<exists>u v. t = u @ v \<and> v \<noteq> [] \<and> v \<in> L)"
  proof (cases u)
    case Nil
    with uv show ?thesis by simp
  next
    case (Cons e u')
    with uv have "t = u' @ v" by simp
    with uv show ?thesis by blast
  qed
next
  assume "d # t \<in> L \<or> (\<exists>u v. t = u @ v \<and> v \<noteq> [] \<and> v \<in> L)"
  then show "\<exists>u v. d # t = u @ v \<and> v \<noteq> [] \<and> v \<in> L"
  proof
    assume "d # t \<in> L"
    then have "d # t = [] @ (d # t) \<and> d # t \<noteq> [] \<and> d # t \<in> L" by simp
    then show ?thesis by blast
  next
    assume "\<exists>u v. t = u @ v \<and> v \<noteq> [] \<and> v \<in> L"
    then obtain u v where "t = u @ v" "v \<noteq> []" "v \<in> L" by blast
    then have "d # t = (d # u) @ v \<and> v \<noteq> [] \<and> v \<in> L" by simp
    then show ?thesis by blast
  qed
qed

text \<open>
  The matcher and its inner loop together: the loop succeeds exactly when some non-empty
  suffix of the target is in the language of the rest of the pattern.
\<close>

lemma match_pattern_scan_glob:
  "esp_bus_match_pattern p t = (t \<in> glob_lang p)"
  "match_scan p t = (\<exists>u v. t = u @ v \<and> v \<noteq> [] \<and> v \<in> glob_lang p)"
proof (induction p t and p t rule: esp_bus_match_pattern_match_scan.induct)
  case (1 t)
  then show ?case by auto
next
  case (2 c p)
  then show ?case using skip_stars_nil_iff[of "c # p"] by simp
next
  case (3 c p d t)
  show ?case
  proof (cases "c = star")
    case True
    note cs = True
    show ?thesis
    proof (cases "p = []")
      case True
      then show ?thesis using cs by simp
    next
      case False
      have "(d # t \<in> glob_lang (c # p)) = (\<exists>u v. d # t = u @ v \<and> v \<in> glob_lang p)"
        using cs by auto
      also have "\<dots> = (\<exists>u v. d # t = u @ v \<and> v \<noteq> [] \<and> v \<in> glob_lang p)"
      proof
        assume "\<exists>u v. d # t = u @ v \<and> v \<in> glob_lang p"
        then obtain u v where uv: "d # t = u @ v" "v \<in> glob_lang p" by blast
        show "\<exists>u v. d # t = u @ v \<and> v \<noteq> [] \<and> v \<in> glob_lang p"
        proof (cases "v = []")
          case True
          with uv False have "d # t \<in> glob_lang p" by (simp add: glob_lang_nil_all)
          then have "d # t = [] @ (d # t) \<and> d # t \<noteq> [] \<and> d # t \<in> glob_lang p" by simp
          then show ?thesis by blast
        next
          case False
          with uv show ?thesis by blast
        qed
      qed blast
      finally show ?thesis using cs False 3 by simp
    qed
  next
    case False
    then show ?thesis using 3 by auto
  qed
next
  case (4 p)
  then show ?case by simp
next
  case (5 p d t)
  show ?case
  proof (cases "esp_bus_match_pattern p (d # t)")
    case True
    with 5 show ?thesis by (simp add: nonempty_suffix_Cons)
  next
    case False
    with 5 show ?thesis by (simp add: nonempty_suffix_Cons)
  qed
qed

lemma glob_lang_no_star: "star \<notin> set p \<Longrightarrow> glob_lang p = {p}"
  by (induction p) auto

text \<open>
  Claim C1. \<open>esp_bus_match_pattern p t\<close> is true exactly when \<open>t\<close> is in the glob
  language of \<open>p\<close>, in which a star stands for zero or more arbitrary characters and every
  other character for itself, the whole of \<open>t\<close> being accounted for. In particular a
  pattern without a star matches its own text and nothing else, and the pattern \<open>*\<close>
  matches every text, the empty one included.
\<close>

theorem match_pattern_is_glob:
  "(esp_bus_match_pattern p t \<longleftrightarrow> t \<in> glob_lang p) \<and>
   (CHR ''*'' \<notin> set p \<longrightarrow> (esp_bus_match_pattern p t \<longleftrightarrow> p = t)) \<and>
   esp_bus_match_pattern ''*'' t"
proof (intro conjI impI)
  show "esp_bus_match_pattern p t \<longleftrightarrow> t \<in> glob_lang p"
    by (rule match_pattern_scan_glob(1))
next
  assume "CHR ''*'' \<notin> set p"
  then have "glob_lang p = {p}" by (simp add: glob_lang_no_star star_def)
  then show "esp_bus_match_pattern p t \<longleftrightarrow> p = t"
    by (auto simp: match_pattern_scan_glob(1))
next
  have "t @ [] \<in> glob_lang [star]" by (simp del: append_Nil2)
  then show "esp_bus_match_pattern ''*'' t"
    by (simp add: match_pattern_scan_glob(1) star_def)
qed

theorem match_pattern_is_glob_witness:
  "CHR ''*'' \<notin> set ''btn1:short'' \<and>
   esp_bus_match_pattern ''btn1:short'' ''btn1:short'' \<and>
   \<not> esp_bus_match_pattern ''btn1:short'' ''btn1:long'' \<and>
   ''abc'' \<in> glob_lang ''a*c'' \<and> ''ab'' \<notin> glob_lang ''a*c'' \<and>
   esp_bus_match_pattern ''*'' ''''"
  using match_pattern_is_glob [of "''btn1:short''" "''btn1:short''"]
    match_pattern_is_glob [of "''btn1:short''" "''btn1:long''"]
    match_pattern_is_glob [of "''a*c''" "''abc''"]
    match_pattern_is_glob [of "''a*c''" "''ab''"]
    match_pattern_is_glob [of "''*''" "''''"]
  by (simp add: star_def)

section \<open>How a request is resolved\<close>

lemma parse_no_dot:
  "CHR ''.'' \<notin> set pattern \<Longrightarrow>
     esp_bus_parse_pattern pattern = None \<or>
     (\<exists>m a. esp_bus_parse_pattern pattern = Some (m, a, CHR '':'')) \<or>
     (\<exists>m. esp_bus_parse_pattern pattern = Some (m, [], CHR 0x00))"
  by (simp add: esp_bus_parse_pattern_def strchr_None split: option.splits)

lemma process_request_invalid:
  assumes "esp_bus_parse_pattern pattern = None \<or>
           (\<exists>m a s. esp_bus_parse_pattern pattern = Some (m, a, s) \<and> s \<noteq> CHR ''.'')"
  shows "esp_bus_process_request st pattern req req_len res res_size res_len =
           (ret_only ESP_ERR_INVALID_ARG,
            esp_bus_report_error st pattern ESP_ERR_INVALID_ARG ''invalid pattern'')"
  using assms by (auto simp: esp_bus_process_request_def)

lemma process_request_no_dot:
  assumes "CHR ''.'' \<notin> set pattern"
  shows "esp_bus_process_request st pattern req req_len res res_size res_len =
           (ret_only ESP_ERR_INVALID_ARG,
            esp_bus_report_error st pattern ESP_ERR_INVALID_ARG ''invalid pattern'')"
proof (rule process_request_invalid)
  from parse_no_dot [OF assms]
  show "esp_bus_parse_pattern pattern = None \<or>
           (\<exists>m a s. esp_bus_parse_pattern pattern = Some (m, a, s) \<and> s \<noteq> CHR ''.'')"
    by auto
qed

lemma process_request_long_module:
  assumes "CHR ''.'' \<notin> set m" "length m \<ge> ESP_BUS_NAME_MAX"
  shows "esp_bus_process_request st (m @ CHR ''.'' # a) req req_len res res_size res_len =
           (ret_only ESP_ERR_INVALID_ARG,
            esp_bus_report_error st (m @ CHR ''.'' # a) ESP_ERR_INVALID_ARG ''invalid pattern'')"
  using assms by (intro process_request_invalid) (simp add: esp_bus_parse_pattern_def strchr_append)

lemma find_module_from_name: "find_module_from ms m = Some md \<Longrightarrow> mod_name md = m"
  by (induction ms) (auto split: if_splits)

lemma process_request_dot:
  assumes "CHR ''.'' \<notin> set m" "length m < ESP_BUS_NAME_MAX"
  shows "esp_bus_process_request st (m @ CHR ''.'' # a) req req_len res res_size res_len =
     (case esp_bus_find_module st m of
        None \<Rightarrow>
          if strict st
          then (ret_only ESP_ERR_NOT_FOUND,
                esp_bus_report_error st (m @ CHR ''.'' # a) ESP_ERR_NOT_FOUND ''module not found'')
          else (ret_only ESP_OK, [])
      | Some md \<Rightarrow>
         (case mod_on_req md of
            None \<Rightarrow>
              (ret_only ESP_ERR_NOT_SUPPORTED,
               esp_bus_report_error st (m @ CHR ''.'' # a) ESP_ERR_NOT_SUPPORTED ''no handler'')
          | Some handler \<Rightarrow>
              (handler \<lparr>rc_action = take (ESP_BUS_NAME_MAX - 1) a, rc_req = req,
                        rc_req_len = req_len, rc_res = res, rc_res_size = res_size,
                        rc_res_len = res_len, rc_ctx = mod_ctx md\<rparr>,
               [Call_on_req m
                  \<lparr>rc_action = take (ESP_BUS_NAME_MAX - 1) a, rc_req = req,
                   rc_req_len = req_len, rc_res = res, rc_res_size = res_size,
                   rc_res_len = res_len, rc_ctx = mod_ctx md\<rparr>])))"
proof -
  have p: "esp_bus_parse_pattern (m @ CHR ''.'' # a) =
            Some (m, take (ESP_BUS_NAME_MAX - 1) a, CHR ''.'')"
    using assms by (simp add: esp_bus_parse_pattern_def strchr_append)
  show ?thesis
    by (auto simp: esp_bus_process_request_def p Let_def esp_bus_find_module_def
             split: option.splits dest: find_module_from_name)
qed

text \<open>
  Claim C2. A pattern parses as module, dot, action when it has a dot and fewer than
  \<open>ESP_BUS_NAME_MAX\<close> characters before the first one. \<open>esp_bus_process_request\<close>
  returns \<open>ESP_ERR_INVALID_ARG\<close> for every other pattern. For a pattern that parses, an
  unknown module gives \<open>ESP_OK\<close> with strict mode off and \<open>ESP_ERR_NOT_FOUND\<close> with
  strict mode on, a module without a request handler gives \<open>ESP_ERR_NOT_SUPPORTED\<close>, and
  otherwise the handler is called once, with the action (cut to \<open>ESP_BUS_NAME_MAX - 1\<close>
  characters by the parser), the request bytes and length, the caller's response buffer,
  size and length pointer and the module's context, and what it returns is returned
  unchanged.
\<close>

theorem process_request_resolution:
  "(CHR ''.'' \<notin> set pattern \<longrightarrow>
      esp_bus_process_request st pattern req req_len res res_size res_len =
        (ret_only ESP_ERR_INVALID_ARG,
         esp_bus_report_error st pattern ESP_ERR_INVALID_ARG ''invalid pattern'')) \<and>
   (CHR ''.'' \<notin> set m \<and> length m \<ge> ESP_BUS_NAME_MAX \<longrightarrow>
      esp_bus_process_request st (m @ CHR ''.'' # a) req req_len res res_size res_len =
        (ret_only ESP_ERR_INVALID_ARG,
         esp_bus_report_error st (m @ CHR ''.'' # a) ESP_ERR_INVALID_ARG ''invalid pattern'')) \<and>
   (CHR ''.'' \<notin> set m \<and> length m < ESP_BUS_NAME_MAX \<longrightarrow>
      esp_bus_process_request st (m @ CHR ''.'' # a) req req_len res res_size res_len =
        (case esp_bus_find_module st m of
           None \<Rightarrow>
             if strict st
             then (ret_only ESP_ERR_NOT_FOUND,
                   esp_bus_report_error st (m @ CHR ''.'' # a) ESP_ERR_NOT_FOUND
                     ''module not found'')
             else (ret_only ESP_OK, [])
         | Some md \<Rightarrow>
            (case mod_on_req md of
               None \<Rightarrow>
                 (ret_only ESP_ERR_NOT_SUPPORTED,
                  esp_bus_report_error st (m @ CHR ''.'' # a) ESP_ERR_NOT_SUPPORTED
                    ''no handler'')
             | Some handler \<Rightarrow>
                 (handler \<lparr>rc_action = take (ESP_BUS_NAME_MAX - 1) a, rc_req = req,
                           rc_req_len = req_len, rc_res = res, rc_res_size = res_size,
                           rc_res_len = res_len, rc_ctx = mod_ctx md\<rparr>,
                  [Call_on_req m
                     \<lparr>rc_action = take (ESP_BUS_NAME_MAX - 1) a, rc_req = req,
                      rc_req_len = req_len, rc_res = res, rc_res_size = res_size,
                      rc_res_len = res_len, rc_ctx = mod_ctx md\<rparr>]))))"
proof (intro conjI impI)
  assume "CHR ''.'' \<notin> set pattern"
  then show "esp_bus_process_request st pattern req req_len res res_size res_len =
        (ret_only ESP_ERR_INVALID_ARG,
         esp_bus_report_error st pattern ESP_ERR_INVALID_ARG ''invalid pattern'')"
    by (rule process_request_no_dot)
next
  assume "CHR ''.'' \<notin> set m \<and> length m \<ge> ESP_BUS_NAME_MAX"
  then show "esp_bus_process_request st (m @ CHR ''.'' # a) req req_len res res_size res_len =
        (ret_only ESP_ERR_INVALID_ARG,
         esp_bus_report_error st (m @ CHR ''.'' # a) ESP_ERR_INVALID_ARG ''invalid pattern'')"
    by (simp add: process_request_long_module)
next
  assume "CHR ''.'' \<notin> set m \<and> length m < ESP_BUS_NAME_MAX"
  then have "CHR ''.'' \<notin> set m" "length m < ESP_BUS_NAME_MAX" by simp_all
  then show "esp_bus_process_request st (m @ CHR ''.'' # a) req req_len res res_size res_len =
        (case esp_bus_find_module st m of
           None \<Rightarrow>
             if strict st
             then (ret_only ESP_ERR_NOT_FOUND,
                   esp_bus_report_error st (m @ CHR ''.'' # a) ESP_ERR_NOT_FOUND
                     ''module not found'')
             else (ret_only ESP_OK, [])
         | Some md \<Rightarrow>
            (case mod_on_req md of
               None \<Rightarrow>
                 (ret_only ESP_ERR_NOT_SUPPORTED,
                  esp_bus_report_error st (m @ CHR ''.'' # a) ESP_ERR_NOT_SUPPORTED
                    ''no handler'')
             | Some handler \<Rightarrow>
                 (handler \<lparr>rc_action = take (ESP_BUS_NAME_MAX - 1) a, rc_req = req,
                           rc_req_len = req_len, rc_res = res, rc_res_size = res_size,
                           rc_res_len = res_len, rc_ctx = mod_ctx md\<rparr>,
                  [Call_on_req m
                     \<lparr>rc_action = take (ESP_BUS_NAME_MAX - 1) a, rc_req = req,
                      rc_req_len = req_len, rc_res = res, rc_res_size = res_size,
                      rc_res_len = res_len, rc_ctx = mod_ctx md\<rparr>])))"
    by (rule process_request_dot)
qed

theorem process_request_resolution_witness:
  "CHR ''.'' \<notin> set ''led1:on'' \<and>
   esp_bus_process_request demo_bus ''led1:on'' None 0 None 0 None =
     (\<lparr>ret_err = ESP_ERR_INVALID_ARG, ret_res = None, ret_res_len = None\<rparr>,
      [Call_on_err 9 ''led1:on'' ESP_ERR_INVALID_ARG ''invalid pattern'']) \<and>
   CHR ''.'' \<notin> set ''a_module_name_of_24_char'' \<and>
   length ''a_module_name_of_24_char'' \<ge> ESP_BUS_NAME_MAX \<and>
   fst (esp_bus_process_request demo_bus ''a_module_name_of_24_char.on'' None 0 None 0 None) =
     \<lparr>ret_err = ESP_ERR_INVALID_ARG, ret_res = None, ret_res_len = None\<rparr> \<and>
   CHR ''.'' \<notin> set ''led1'' \<and> length ''led1'' < ESP_BUS_NAME_MAX \<and>
   esp_bus_process_request demo_bus ''led1.on'' (Some [1, 2]) 2 (Some 100) 8 (Some 200) =
     (\<lparr>ret_err = ESP_OK, ret_res = Some [1, 2], ret_res_len = Some 2\<rparr>,
      [Call_on_req ''led1''
         \<lparr>rc_action = ''on'', rc_req = Some [1, 2], rc_req_len = 2, rc_res = Some 100,
          rc_res_size = 8, rc_res_len = Some 200, rc_ctx = Some 7\<rparr>]) \<and>
   esp_bus_process_request demo_bus ''mute.on'' None 0 None 0 None =
     (\<lparr>ret_err = ESP_ERR_NOT_SUPPORTED, ret_res = None, ret_res_len = None\<rparr>,
      [Call_on_err 9 ''mute.on'' ESP_ERR_NOT_SUPPORTED ''no handler'']) \<and>
   esp_bus_process_request demo_bus ''nobody.on'' None 0 None 0 None =
     (\<lparr>ret_err = ESP_OK, ret_res = None, ret_res_len = None\<rparr>, []) \<and>
   esp_bus_process_request (demo_bus\<lparr>strict := True\<rparr>) ''nobody.on'' None 0 None 0 None =
     (\<lparr>ret_err = ESP_ERR_NOT_FOUND, ret_res = None, ret_res_len = None\<rparr>,
      [Call_on_err 9 ''nobody.on'' ESP_ERR_NOT_FOUND ''module not found''])"
  using process_request_resolution [of "''led1:on''" demo_bus None 0 None 0 None
          "''a_module_name_of_24_char''" "''on''"]
    process_request_resolution [of "''led1:on''" demo_bus "Some [1, 2]" 2 "Some 100" 8 "Some 200"
          "''led1''" "''on''"]
    process_request_resolution [of "''led1:on''" demo_bus None 0 None 0 None "''mute''" "''on''"]
    process_request_resolution [of "''led1:on''" demo_bus None 0 None 0 None "''nobody''" "''on''"]
    process_request_resolution [of "''led1:on''" "demo_bus\<lparr>strict := True\<rparr>" None 0 None 0 None
          "''nobody''" "''on''"]
  by (simp add: demo_simps)

section \<open>The outcomes of a queued request\<close>

lemma process_message_req_frees:
  assumes "msg_type msg = MSG_REQ"
  shows "\<exists>tr. process_message st msg = tr @ free_data (msg_data msg)"
  using assms by (simp add: process_message_def split: prod.splits)

text \<open>
  Claim C3. Called from a task other than the worker, with the payload copy (if any)
  allocated: with a timeout of 0 and the item placed in the queue, \<open>esp_bus_req\<close>
  returns \<open>ESP_OK\<close> at once, whatever the worker does or would answer, and the envelope
  carries neither a semaphore nor a result slot. For every timeout, an item not placed in
  the queue gives \<open>ESP_ERR_TIMEOUT\<close>, and so does a wait on the semaphore that expires;
  a wait that succeeds gives what the worker stored. The semaphore, when one was created,
  is deleted before every return. The copy of the payload is freed before the return when
  the item was not placed; when it was placed the copy belongs to the envelope, and the
  worker's \<open>process_message\<close> of a request envelope ends by freeing it.
\<close>

theorem req_enqueue_outcomes:
  "(initialized st \<and> env_current_task env \<noteq> task st \<and>
    (req = None \<or> req_len = 0 \<or> env_malloc_ok env) \<and> env_send_ok env \<longrightarrow>
      esp_bus_req st env (Some pat) req req_len res res_size res_len 0 =
        (ret_only ESP_OK,
         st\<lparr>queue := queue st @
              [\<lparr>msg_type = MSG_REQ, msg_pattern = take (ESP_BUS_PATTERN_MAX - 1) pat,
                msg_data = (if req \<noteq> None \<and> 0 < req_len
                            then Some (take req_len (the req)) else None),
                msg_len = (if req \<noteq> None \<and> 0 < req_len then req_len else 0),
                msg_res_buf = res, msg_res_size = res_size, msg_res_len = res_len,
                msg_result = None, msg_done = None\<rparr>]\<rparr>,
         if req \<noteq> None \<and> 0 < req_len then [Malloc (take req_len (the req))] else [])) \<and>
   (initialized st \<and> env_current_task env \<noteq> task st \<and>
    (req = None \<or> req_len = 0 \<or> env_malloc_ok env) \<and> \<not> env_send_ok env \<longrightarrow>
      esp_bus_req st env (Some pat) req req_len res res_size res_len timeout_ms =
        (ret_only ESP_ERR_TIMEOUT, st,
         (if req \<noteq> None \<and> 0 < req_len then [Malloc (take req_len (the req))] else []) @
         (if 0 < timeout_ms
          then (case env_sem env of Some s \<Rightarrow> [Sem_create s] | None \<Rightarrow> []) else []) @
         (if req \<noteq> None \<and> 0 < req_len then [Free (take req_len (the req))] else []) @
         (if 0 < timeout_ms
          then (case env_sem env of Some s \<Rightarrow> [Sem_delete s] | None \<Rightarrow> []) else []))) \<and>
   (initialized st \<and> env_current_task env \<noteq> task st \<and>
    (req = None \<or> req_len = 0 \<or> env_malloc_ok env) \<and> env_send_ok env \<and>
    0 < timeout_ms \<and> env_sem env = Some s \<longrightarrow>
      esp_bus_req st env (Some pat) req req_len res res_size res_len timeout_ms =
        (ret_only (case env_taken env of None \<Rightarrow> ESP_ERR_TIMEOUT | Some e \<Rightarrow> e),
         st\<lparr>queue := queue st @
              [\<lparr>msg_type = MSG_REQ, msg_pattern = take (ESP_BUS_PATTERN_MAX - 1) pat,
                msg_data = (if req \<noteq> None \<and> 0 < req_len
                            then Some (take req_len (the req)) else None),
                msg_len = (if req \<noteq> None \<and> 0 < req_len then req_len else 0),
                msg_res_buf = res, msg_res_size = res_size, msg_res_len = res_len,
                msg_result = Some (env_result_slot env), msg_done = Some s\<rparr>]\<rparr>,
         (if req \<noteq> None \<and> 0 < req_len then [Malloc (take req_len (the req))] else []) @
         [Sem_create s, Sem_delete s])) \<and>
   (msg_type msg = MSG_REQ \<longrightarrow>
      (\<exists>tr. process_message st' msg = tr @ free_data (msg_data msg)))"
proof (intro conjI impI)
  assume "msg_type msg = MSG_REQ"
  then show "\<exists>tr. process_message st' msg = tr @ free_data (msg_data msg)"
    by (rule process_message_req_frees)
qed (auto simp: esp_bus_req_def Let_def free_data_def split: option.splits)

theorem req_enqueue_outcomes_witness:
  "initialized demo_bus \<and> env_current_task demo_env \<noteq> task demo_bus \<and>
   env_malloc_ok demo_env \<and> env_send_ok demo_env \<and> env_sem demo_env = Some 60 \<and>
   esp_bus_req demo_bus demo_env (Some ''led1.on'') (Some [1, 2]) 2 None 0 None 0 =
     (\<lparr>ret_err = ESP_OK, ret_res = None, ret_res_len = None\<rparr>,
      demo_bus\<lparr>queue := [demo_req None None]\<rparr>, [Malloc [1, 2]]) \<and>
   \<not> env_send_ok (demo_env\<lparr>env_send_ok := False\<rparr>) \<and>
   esp_bus_req demo_bus (demo_env\<lparr>env_send_ok := False\<rparr>) (Some ''led1.on'') (Some [1, 2]) 2
       None 0 None 50 =
     (\<lparr>ret_err = ESP_ERR_TIMEOUT, ret_res = None, ret_res_len = None\<rparr>, demo_bus,
      [Malloc [1, 2], Sem_create 60, Free [1, 2], Sem_delete 60]) \<and>
   esp_bus_req demo_bus (demo_env\<lparr>env_taken := None\<rparr>) (Some ''led1.on'') (Some [1, 2]) 2
       None 0 None 50 =
     (\<lparr>ret_err = ESP_ERR_TIMEOUT, ret_res = None, ret_res_len = None\<rparr>,
      demo_bus\<lparr>queue := [demo_req (Some 61) (Some 60)]\<rparr>,
      [Malloc [1, 2], Sem_create 60, Sem_delete 60]) \<and>
   esp_bus_req demo_bus (demo_env\<lparr>env_taken := Some ESP_ERR_NOT_SUPPORTED\<rparr>) (Some ''led1.on'')
       (Some [1, 2]) 2 None 0 None 50 =
     (\<lparr>ret_err = ESP_ERR_NOT_SUPPORTED, ret_res = None, ret_res_len = None\<rparr>,
      demo_bus\<lparr>queue := [demo_req (Some 61) (Some 60)]\<rparr>,
      [Malloc [1, 2], Sem_create 60, Sem_delete 60]) \<and>
   msg_type (demo_req (Some 61) (Some 60)) = MSG_REQ \<and>
   process_message demo_bus (demo_req (Some 61) (Some 60)) =
     [Call_on_req ''led1''
        \<lparr>rc_action = ''on'', rc_req = Some [1, 2], rc_req_len = 2, rc_res = None,
         rc_res_size = 0, rc_res_len = None, rc_ctx = Some 7\<rparr>,
      Store_result 61 ESP_OK, Sem_give 60, Free [1, 2]] \<and>
   (\<exists>tr. process_message demo_bus (demo_req (Some 61) (Some 60)) = tr @ [Free [1, 2]])"
  using req_enqueue_outcomes [where st = demo_bus and env = demo_env and req = "Some [1, 2]"
      and req_len = 2 and pat = "''led1.on''" and res = None and res_size = 0 and res_len = None
      and timeout_ms = 50 and s = 60 and msg = "demo_req (Some 61) (Some 60)" and st' = demo_bus]
    req_enqueue_outcomes [where st = demo_bus and env = "demo_env\<lparr>env_send_ok := False\<rparr>"
      and req = "Some [1, 2]"
      and req_len = 2 and pat = "''led1.on''" and res = None and res_size = 0 and res_len = None
      and timeout_ms = 50 and s = 60 and msg = "demo_req (Some 61) (Some 60)" and st' = demo_bus]
    req_enqueue_outcomes [where st = demo_bus and env = "demo_env\<lparr>env_taken := None\<rparr>"
      and req = "Some [1, 2]"
      and req_len = 2 and pat = "''led1.on''" and res = None and res_size = 0 and res_len = None
      and timeout_ms = 50 and s = 60 and msg = "demo_req (Some 61) (Some 60)" and st' = demo_bus]
  by (simp add: demo_simps demo_env_def demo_req_def esp_bus_req_def free_data_def
       process_message_def esp_bus_process_request_def esp_bus_parse_pattern_def Let_def)

section \<open>Registering a module twice\<close>

lemma reg_duplicate:
  assumes "initialized st" "cfg_name m = Some name" "esp_bus_find_module st name = Some node"
  shows "esp_bus_reg st calloc_ok (Some m) = (ESP_ERR_INVALID_STATE, st)"
  using assms by (simp add: esp_bus_reg_def)

lemma find_module_from_present:
  "name \<in> mod_name ` set ms \<Longrightarrow>
     \<exists>node. find_module_from ms name = Some node \<and> node \<in> set ms \<and> mod_name node = name"
  by (induction ms) auto

lemma reg_fresh:
  assumes "initialized st" "cfg_name m = Some name" "esp_bus_find_module st name = None"
  shows "esp_bus_reg st True (Some m) =
           (ESP_OK, st\<lparr>modules := \<lparr>mod_name = take (ESP_BUS_NAME_MAX - 1) name,
                             mod_on_req = cfg_on_req m, mod_on_evt = cfg_on_evt m,
                             mod_ctx = cfg_ctx m,
                             mod_actions = cfg_actions m, mod_events = cfg_events m\<rparr> # modules st\<rparr>)"
  using assms by (simp add: esp_bus_reg_def)

lemma long_name_not_stored:
  assumes "ESP_BUS_NAME_MAX \<le> length name"
  shows "take (ESP_BUS_NAME_MAX - 1) name \<noteq> name"
proof
  assume "take (ESP_BUS_NAME_MAX - 1) name = name"
  then have "length (take (ESP_BUS_NAME_MAX - 1) name) = length name" by simp
  with assms show False by (simp add: ESP_BUS_NAME_MAX_def)
qed

text \<open>
  Claim C4 does not hold of \<open>esp_bus_reg\<close> for names of \<open>ESP_BUS_NAME_MAX\<close>
  characters or more. The duplicate check compares the name as given with the stored
  names, and a name is stored cut to \<open>ESP_BUS_NAME_MAX - 1\<close> characters. So a call
  with a name that is stored in the registry is refused with \<open>ESP_ERR_INVALID_STATE\<close>
  and leaves the bus as it was, and of two registrations under one name shorter than
  \<open>ESP_BUS_NAME_MAX\<close> the second is refused, as the claim says. But two registrations
  under one name of \<open>ESP_BUS_NAME_MAX\<close> characters or more both return \<open>ESP_OK\<close>: the
  registry then holds two nodes under the same stored name, and the lookup of that name
  returns the second registration, not the first.
\<close>

theorem reg_same_name_twice:
  "(initialized st \<and> cfg_name m = Some name \<and> name \<in> mod_name ` set (modules st) \<longrightarrow>
      esp_bus_reg st calloc_ok (Some m) = (ESP_ERR_INVALID_STATE, st) \<and>
      (\<exists>node. node \<in> set (modules st) \<and> mod_name node = name \<and>
         esp_bus_find_module st name = Some node \<and>
         esp_bus_find_module (snd (esp_bus_reg st calloc_ok (Some m))) name = Some node) \<and>
      esp_bus_exists (snd (esp_bus_reg st calloc_ok (Some m))) (Some name)) \<and>
   (initialized st \<and> esp_bus_find_module st name = None \<and> length name < ESP_BUS_NAME_MAX \<and>
    cfg_name ma = Some name \<and> cfg_name mb = Some name \<longrightarrow>
      (\<exists>st1. esp_bus_reg st True (Some ma) = (ESP_OK, st1) \<and>
             esp_bus_reg st1 calloc_ok (Some mb) = (ESP_ERR_INVALID_STATE, st1) \<and>
             esp_bus_find_module st1 name =
               Some \<lparr>mod_name = name, mod_on_req = cfg_on_req ma, mod_on_evt = cfg_on_evt ma,
                     mod_ctx = cfg_ctx ma, mod_actions = cfg_actions ma,
                     mod_events = cfg_events ma\<rparr>)) \<and>
   (initialized st \<and> esp_bus_find_module st name = None \<and> ESP_BUS_NAME_MAX \<le> length name \<and>
    cfg_name ma = Some name \<and> cfg_name mb = Some name \<longrightarrow>
      (\<exists>st1 st2.
         esp_bus_reg st True (Some ma) = (ESP_OK, st1) \<and>
         esp_bus_reg st1 True (Some mb) = (ESP_OK, st2) \<and>
         modules st2 =
           \<lparr>mod_name = take (ESP_BUS_NAME_MAX - 1) name, mod_on_req = cfg_on_req mb,
            mod_on_evt = cfg_on_evt mb, mod_ctx = cfg_ctx mb, mod_actions = cfg_actions mb,
            mod_events = cfg_events mb\<rparr> #
           \<lparr>mod_name = take (ESP_BUS_NAME_MAX - 1) name, mod_on_req = cfg_on_req ma,
            mod_on_evt = cfg_on_evt ma, mod_ctx = cfg_ctx ma, mod_actions = cfg_actions ma,
            mod_events = cfg_events ma\<rparr> # modules st \<and>
         esp_bus_find_module st2 (take (ESP_BUS_NAME_MAX - 1) name) =
           Some \<lparr>mod_name = take (ESP_BUS_NAME_MAX - 1) name, mod_on_req = cfg_on_req mb,
                 mod_on_evt = cfg_on_evt mb, mod_ctx = cfg_ctx mb,
                 mod_actions = cfg_actions mb, mod_events = cfg_events mb\<rparr>))"
proof (intro conjI impI)
  assume a: "initialized st \<and> cfg_name m = Some name \<and> name \<in> mod_name ` set (modules st)"
  then obtain node where n: "esp_bus_find_module st name = Some node"
    "node \<in> set (modules st)" "mod_name node = name"
    using find_module_from_present [of name "modules st"]
    by (auto simp: esp_bus_find_module_def)
  with a have r: "esp_bus_reg st calloc_ok (Some m) = (ESP_ERR_INVALID_STATE, st)"
    by (simp add: reg_duplicate)
  show "esp_bus_reg st calloc_ok (Some m) = (ESP_ERR_INVALID_STATE, st)" by (rule r)
  show "\<exists>node. node \<in> set (modules st) \<and> mod_name node = name \<and>
         esp_bus_find_module st name = Some node \<and>
         esp_bus_find_module (snd (esp_bus_reg st calloc_ok (Some m))) name = Some node"
    using n r by auto
  show "esp_bus_exists (snd (esp_bus_reg st calloc_ok (Some m))) (Some name)"
    using a n r by (simp add: esp_bus_exists_def)
next
  assume a: "initialized st \<and> esp_bus_find_module st name = None \<and>
    length name < ESP_BUS_NAME_MAX \<and> cfg_name ma = Some name \<and> cfg_name mb = Some name"
  let ?node = "\<lparr>mod_name = name, mod_on_req = cfg_on_req ma, mod_on_evt = cfg_on_evt ma,
                     mod_ctx = cfg_ctx ma, mod_actions = cfg_actions ma,
                     mod_events = cfg_events ma\<rparr>"
  let ?st1 = "st\<lparr>modules := ?node # modules st\<rparr>"
  from a have 1: "esp_bus_reg st True (Some ma) = (ESP_OK, ?st1)"
    using reg_fresh [of st ma name] by (simp add: ESP_BUS_NAME_MAX_def)
  have f: "esp_bus_find_module ?st1 name = Some ?node"
    by (simp add: esp_bus_find_module_def)
  from a have i: "initialized ?st1" by simp
  from a have 2: "esp_bus_reg ?st1 calloc_ok (Some mb) = (ESP_ERR_INVALID_STATE, ?st1)"
    by (intro reg_duplicate [OF i _ f]) simp
  from 1 2 f show "\<exists>st1. esp_bus_reg st True (Some ma) = (ESP_OK, st1) \<and>
             esp_bus_reg st1 calloc_ok (Some mb) = (ESP_ERR_INVALID_STATE, st1) \<and>
             esp_bus_find_module st1 name = Some ?node"
    by blast
next
  assume a: "initialized st \<and> esp_bus_find_module st name = None \<and>
    ESP_BUS_NAME_MAX \<le> length name \<and> cfg_name ma = Some name \<and> cfg_name mb = Some name"
  let ?cut = "take (ESP_BUS_NAME_MAX - 1) name"
  let ?na = "\<lparr>mod_name = ?cut, mod_on_req = cfg_on_req ma,
            mod_on_evt = cfg_on_evt ma, mod_ctx = cfg_ctx ma, mod_actions = cfg_actions ma,
            mod_events = cfg_events ma\<rparr>"
  let ?nb = "\<lparr>mod_name = ?cut, mod_on_req = cfg_on_req mb,
            mod_on_evt = cfg_on_evt mb, mod_ctx = cfg_ctx mb, mod_actions = cfg_actions mb,
            mod_events = cfg_events mb\<rparr>"
  let ?st1 = "st\<lparr>modules := ?na # modules st\<rparr>"
  let ?st2 = "?st1\<lparr>modules := ?nb # modules ?st1\<rparr>"
  from a have ne: "?cut \<noteq> name" using long_name_not_stored [of name] by blast
  from a have 1: "esp_bus_reg st True (Some ma) = (ESP_OK, ?st1)"
    by (intro reg_fresh) simp_all
  from a ne have f1: "esp_bus_find_module ?st1 name = None"
    by (simp add: esp_bus_find_module_def)
  from a have i: "initialized ?st1" by simp
  from a have 2: "esp_bus_reg ?st1 True (Some mb) = (ESP_OK, ?st2)"
    by (intro reg_fresh [OF i _ f1]) simp
  have m: "modules ?st2 = ?nb # ?na # modules st" by simp
  have f2: "esp_bus_find_module ?st2 ?cut = Some ?nb"
    by (simp add: esp_bus_find_module_def)
  from 1 2 m f2 show "\<exists>st1 st2.
         esp_bus_reg st True (Some ma) = (ESP_OK, st1) \<and>
         esp_bus_reg st1 True (Some mb) = (ESP_OK, st2) \<and>
         modules st2 = ?nb # ?na # modules st \<and>
         esp_bus_find_module st2 ?cut = Some ?nb"
    by blast
qed

theorem reg_same_name_twice_witness:
  "initialized demo_bus \<and> cfg_name (demo_module ''led1'' None) = Some ''led1'' \<and>
   ''led1'' \<in> mod_name ` set (modules demo_bus) \<and>
   esp_bus_reg demo_bus True (Some (demo_module ''led1'' None)) =
     (ESP_ERR_INVALID_STATE, demo_bus) \<and>
   esp_bus_find_module (demo_bus\<lparr>modules := []\<rparr>) ''led1'' = None \<and>
   length ''led1'' < ESP_BUS_NAME_MAX \<and>
   (\<exists>st1. esp_bus_reg (demo_bus\<lparr>modules := []\<rparr>) True
            (Some (demo_module ''led1'' (Some demo_echo))) = (ESP_OK, st1) \<and>
          esp_bus_reg st1 True (Some (demo_module ''led1'' None)) =
            (ESP_ERR_INVALID_STATE, st1)) \<and>
   esp_bus_find_module (demo_bus\<lparr>modules := []\<rparr>) ''a_module_name_of_24_char'' = None \<and>
   ESP_BUS_NAME_MAX \<le> length ''a_module_name_of_24_char'' \<and>
   esp_bus_reg (demo_bus\<lparr>modules := []\<rparr>) True
       (Some (demo_module ''a_module_name_of_24_char'' (Some demo_echo))) =
     (ESP_OK,
      demo_bus\<lparr>modules :=
        [\<lparr>mod_name = ''a_module_name_o'', mod_on_req = Some demo_echo, mod_on_evt = None,
          mod_ctx = Some 3, mod_actions = None, mod_events = None\<rparr>]\<rparr>) \<and>
   esp_bus_reg
       (demo_bus\<lparr>modules :=
          [\<lparr>mod_name = ''a_module_name_o'', mod_on_req = Some demo_echo, mod_on_evt = None,
            mod_ctx = Some 3, mod_actions = None, mod_events = None\<rparr>]\<rparr>)
       True (Some (demo_module ''a_module_name_of_24_char'' None)) =
     (ESP_OK,
      demo_bus\<lparr>modules :=
        [\<lparr>mod_name = ''a_module_name_o'', mod_on_req = None, mod_on_evt = None,
          mod_ctx = Some 3, mod_actions = None, mod_events = None\<rparr>,
         \<lparr>mod_name = ''a_module_name_o'', mod_on_req = Some demo_echo, mod_on_evt = None,
          mod_ctx = Some 3, mod_actions = None, mod_events = None\<rparr>]\<rparr>)"
  using reg_same_name_twice [where st = demo_bus and m = "demo_module ''led1'' None"
      and name = "''led1''" and calloc_ok = True]
    reg_same_name_twice [where st = "demo_bus\<lparr>modules := []\<rparr>"
      and m = "demo_module ''led1'' None" and name = "''led1''"
      and ma = "demo_module ''led1'' (Some demo_echo)" and mb = "demo_module ''led1'' None"
      and calloc_ok = True]
    reg_same_name_twice [where st = "demo_bus\<lparr>modules := []\<rparr>"
      and m = "demo_module ''led1'' None" and name = "''a_module_name_of_24_char''"
      and ma = "demo_module ''a_module_name_of_24_char'' (Some demo_echo)"
      and mb = "demo_module ''a_module_name_of_24_char'' None" and calloc_ok = True]
  by (simp add: demo_simps demo_module_def esp_bus_reg_def)

section \<open>What the address parser returns\<close>

text \<open>
  Claim C5, as stated, fails: in \<open>a:b.c\<close> the first separator is the colon, but the
  parser looks for a dot first and splits there.
\<close>

theorem parse_pattern_first_sep_counterexample:
  "esp_bus_parse_pattern ''a:b.c'' = Some (''a:b'', ''c'', CHR ''.'') \<and>
   parse_pattern_spec ''a:b.c'' = Some (''a'', ''b.c'', CHR '':'') \<and>
   esp_bus_parse_pattern ''a:b.c'' \<noteq> parse_pattern_spec ''a:b.c''"
  by (simp add: esp_bus_parse_pattern_def parse_pattern_spec_def ESP_BUS_NAME_MAX_def)

text \<open>
  Claim C5, amended. The parser splits at the first dot when the string has one, and
  otherwise at the first colon. The module is the text before that separator, the action
  the text after it cut to \<open>ESP_BUS_NAME_MAX - 1\<close> characters, and the separator is
  returned; parsing fails exactly when there is a separator and the module segment has
  \<open>ESP_BUS_NAME_MAX\<close> characters or more. A string with neither separator always parses:
  its first \<open>ESP_BUS_NAME_MAX - 1\<close> characters are the module, the action is empty and
  the separator is NUL.
\<close>

theorem parse_pattern_amended:
  "(CHR ''.'' \<notin> set m \<longrightarrow>
      esp_bus_parse_pattern (m @ CHR ''.'' # a) =
        (if length m \<ge> ESP_BUS_NAME_MAX then None
         else Some (m, take (ESP_BUS_NAME_MAX - 1) a, CHR ''.''))) \<and>
   (CHR ''.'' \<notin> set m \<and> CHR ''.'' \<notin> set a \<and> CHR '':'' \<notin> set m \<longrightarrow>
      esp_bus_parse_pattern (m @ CHR '':'' # a) =
        (if length m \<ge> ESP_BUS_NAME_MAX then None
         else Some (m, take (ESP_BUS_NAME_MAX - 1) a, CHR '':''))) \<and>
   (CHR ''.'' \<notin> set s \<and> CHR '':'' \<notin> set s \<longrightarrow>
      esp_bus_parse_pattern s = Some (take (ESP_BUS_NAME_MAX - 1) s, [], CHR 0x00))"
  by (simp add: esp_bus_parse_pattern_def strchr_append strchr_None)

theorem parse_pattern_amended_witness:
  "CHR ''.'' \<notin> set ''led1'' \<and>
   esp_bus_parse_pattern ''led1.on'' = Some (''led1'', ''on'', CHR ''.'') \<and>
   CHR ''.'' \<notin> set ''btn1'' \<and> CHR ''.'' \<notin> set ''short_press'' \<and> CHR '':'' \<notin> set ''btn1'' \<and>
   esp_bus_parse_pattern ''btn1:short_press'' = Some (''btn1'', ''short_press'', CHR '':'') \<and>
   CHR ''.'' \<notin> set ''a_module_name_of_24_char'' \<and> CHR '':'' \<notin> set ''a_module_name_of_24_char'' \<and>
   esp_bus_parse_pattern ''a_module_name_of_24_char'' = Some (''a_module_name_o'', [], CHR 0x00)"
  using parse_pattern_amended [of "''led1''" "''on''" "''a_module_name_of_24_char''"]
    parse_pattern_amended [of "''btn1''" "''short_press''" "''a_module_name_of_24_char''"]
  by (simp add: ESP_BUS_NAME_MAX_def)

section \<open>Allocation failure for a copied payload\<close>

text \<open>
  Claim C6 does not hold of \<open>esp_bus_on\<close>. When \<open>malloc\<close> fails for the copy of the
  payload, \<open>esp_bus_req\<close> (on the queued path) and \<open>esp_bus_emit\<close> return
  \<open>ESP_ERR_NO_MEM\<close> with the bus unchanged and nothing allocated, as the claim says.
  \<open>esp_bus_on\<close> in the same situation links the route without its payload and
  returns \<open>ESP_OK\<close>.
\<close>

theorem payload_alloc_failure:
  "(initialized st \<and> env_current_task env \<noteq> task st \<and> \<not> env_malloc_ok env \<and>
    req = Some d \<and> 0 < req_len \<longrightarrow>
      esp_bus_req st env (Some pat) req req_len res res_size res_len timeout_ms =
        (ret_only ESP_ERR_NO_MEM, st, [])) \<and>
   (initialized st \<and> data = Some d \<and> 0 < len \<longrightarrow>
      esp_bus_emit st False send_ok (Some src) (Some evt) data len = (ESP_ERR_NO_MEM, st, [])) \<and>
   (initialized st \<and> req_data = Some d \<and> 0 < req_len \<longrightarrow>
      esp_bus_on st True False (Some ep) (Some rp) req_data req_len =
        (ESP_OK,
         st\<lparr>routes :=
              \<lparr>route_evt_pattern = take (ESP_BUS_PATTERN_MAX - 1) ep,
               route_req_pattern = take (ESP_BUS_PATTERN_MAX - 1) rp,
               route_req_data = None, route_req_len = 0,
               route_transform = None, route_ctx = None\<rparr> # routes st\<rparr>,
         []))"
  by (simp add: esp_bus_req_def esp_bus_emit_def esp_bus_on_def Let_def)

theorem payload_alloc_failure_witness:
  "initialized demo_bus \<and> env_current_task (demo_env\<lparr>env_malloc_ok := False\<rparr>) \<noteq> task demo_bus \<and>
   \<not> env_malloc_ok (demo_env\<lparr>env_malloc_ok := False\<rparr>) \<and>
   esp_bus_req demo_bus (demo_env\<lparr>env_malloc_ok := False\<rparr>) (Some ''led1.on'') (Some [1, 2]) 2
       None 0 None 0 =
     (\<lparr>ret_err = ESP_ERR_NO_MEM, ret_res = None, ret_res_len = None\<rparr>, demo_bus, []) \<and>
   esp_bus_emit demo_bus False True (Some ''btn1'') (Some ''long'') (Some [1, 2]) 2 =
     (ESP_ERR_NO_MEM, demo_bus, []) \<and>
   esp_bus_on demo_bus True False (Some ''btn1:long'') (Some ''led1.blink'') (Some [1, 2]) 2 =
     (ESP_OK,
      demo_bus\<lparr>routes :=
        \<lparr>route_evt_pattern = ''btn1:long'', route_req_pattern = ''led1.blink'',
         route_req_data = None, route_req_len = 0,
         route_transform = None, route_ctx = None\<rparr> # routes demo_bus\<rparr>,
      [])"
  using payload_alloc_failure [where st = demo_bus and env = "demo_env\<lparr>env_malloc_ok := False\<rparr>"
      and req = "Some [1, 2]" and d = "[1, 2]" and req_len = 2 and pat = "''led1.on''"
      and res = None and res_size = 0 and res_len = None and timeout_ms = 0
      and data = "Some [1, 2]" and len = 2 and send_ok = True and src = "''btn1''"
      and evt = "''long''" and req_data = "Some [1, 2]" and ep = "''btn1:long''"
      and rp = "''led1.blink''"]
  by (simp add: demo_simps demo_env_def)

section \<open>The wait until the next timer\<close>

lemma next_wait_loop_fold:
  "next_wait_loop xs now acc =
     fold min (map (\<lambda>s. max 1000 (int64 (svc_next_run_us s - now)))
                (filter (\<lambda>s. 0 < svc_next_run_us s) xs)) acc"
  by (induction xs arbitrary: acc) (auto simp: Let_def min_def max_def)

lemma next_wait_loop_Min:
  "next_wait_loop xs now acc =
     Min (insert acc ((\<lambda>s. max 1000 (int64 (svc_next_run_us s - now))) `
                        {s \<in> set xs. 0 < svc_next_run_us s}))"
proof -
  let ?ys = "map (\<lambda>s. max 1000 (int64 (svc_next_run_us s - now)))
                (filter (\<lambda>s. 0 < svc_next_run_us s) xs)"
  have "next_wait_loop xs now acc = Min (set (acc # ?ys))"
    by (simp only: next_wait_loop_fold Min.set_eq_fold)
  then show ?thesis by simp
qed

lemma next_wait_loop_bounds:
  assumes "1000 \<le> acc"
  shows "1000 \<le> next_wait_loop xs now acc \<and> next_wait_loop xs now acc \<le> acc"
proof -
  let ?S = "insert acc ((\<lambda>s. max 1000 (int64 (svc_next_run_us s - now))) `
                        {s \<in> set xs. 0 < svc_next_run_us s})"
  have "Min ?S \<le> acc" by (rule Min_le) simp_all
  moreover have "1000 \<le> Min ?S" using assms by (subst Min_ge_iff) auto
  ultimately show ?thesis by (simp only: next_wait_loop_Min)
qed

lemma calc_next_wait_eq:
  "int (esp_bus_calc_next_wait st now) = next_wait_loop (services st) now 100000 div 1000"
proof -
  let ?m = "next_wait_loop (services st) now 100000"
  have b: "1000 \<le> ?m \<and> ?m \<le> 100000" by (rule next_wait_loop_bounds) simp
  then have d: "c_div ?m 1000 = ?m div 1000" by (simp add: c_div_def)
  from b have r: "1 \<le> ?m div 1000 \<and> ?m div 1000 \<le> 100" by auto
  then have "uint32 (?m div 1000) = nat (?m div 1000)" by (simp add: uint32_def)
  with d r show ?thesis by (simp add: esp_bus_calc_next_wait_def Let_def)
qed

lemma calc_next_wait_range:
  "1 \<le> esp_bus_calc_next_wait st now \<and> esp_bus_calc_next_wait st now \<le> 100"
proof -
  let ?m = "next_wait_loop (services st) now 100000"
  have b: "1000 \<le> ?m \<and> ?m \<le> 100000" by (rule next_wait_loop_bounds) simp
  then have "1 \<le> ?m div 1000 \<and> ?m div 1000 \<le> 100" by auto
  then have "1 \<le> int (esp_bus_calc_next_wait st now) \<and> int (esp_bus_calc_next_wait st now) \<le> 100"
    by (simp only: calc_next_wait_eq)
  then show ?thesis by simp
qed

text \<open>
  Claim C7. \<open>esp_bus_calc_next_wait\<close> always returns between 1 and 100 milliseconds,
  also when no timer is armed (then it returns 100). With the clock and the due times in
  the range of \<open>int64_t\<close> and the clock not negative, it returns, in whole
  milliseconds, the least of \<open>due - now\<close> over the timers with a positive due time,
  each raised to at least 1000 microseconds, and of the cap of 100000 microseconds.
\<close>

theorem calc_next_wait_min_floor_cap:
  "1 \<le> esp_bus_calc_next_wait st now \<and> esp_bus_calc_next_wait st now \<le> 100 \<and>
   ((\<forall>s \<in> set (services st). svc_next_run_us s \<le> 0) \<longrightarrow>
      esp_bus_calc_next_wait st now = 100) \<and>
   (0 \<le> now \<and> now < 2 ^ 63 \<and> (\<forall>s \<in> set (services st). svc_next_run_us s < 2 ^ 63) \<longrightarrow>
      int (esp_bus_calc_next_wait st now) =
        Min (insert 100000
               ((\<lambda>s. max 1000 (svc_next_run_us s - now)) `
                  {s \<in> set (services st). 0 < svc_next_run_us s})) div 1000)"
proof (intro conjI impI)
  show "1 \<le> esp_bus_calc_next_wait st now" "esp_bus_calc_next_wait st now \<le> 100"
    using calc_next_wait_range by simp_all
next
  assume "\<forall>s \<in> set (services st). svc_next_run_us s \<le> 0"
  then have e: "{s \<in> set (services st). 0 < svc_next_run_us s} = {}" by auto
  have "next_wait_loop (services st) now 100000 = 100000"
    unfolding next_wait_loop_Min e by simp
  then have "int (esp_bus_calc_next_wait st now) = 100" by (simp add: calc_next_wait_eq)
  then show "esp_bus_calc_next_wait st now = 100" by simp
next
  assume a: "0 \<le> now \<and> now < 2 ^ 63 \<and> (\<forall>s \<in> set (services st). svc_next_run_us s < 2 ^ 63)"
  have "(\<lambda>s. max 1000 (int64 (svc_next_run_us s - now))) `
                  {s \<in> set (services st). 0 < svc_next_run_us s} =
        (\<lambda>s. max 1000 (svc_next_run_us s - now)) `
                  {s \<in> set (services st). 0 < svc_next_run_us s}"
  proof (rule image_cong [OF refl])
    fix s assume "s \<in> {s \<in> set (services st). 0 < svc_next_run_us s}"
    with a have "0 < svc_next_run_us s" "svc_next_run_us s < 2 ^ 63" by auto
    with a have "int64 (svc_next_run_us s - now) = svc_next_run_us s - now"
      by (intro int64_id) auto
    then show "max 1000 (int64 (svc_next_run_us s - now)) = max 1000 (svc_next_run_us s - now)"
      by simp
  qed
  then show "int (esp_bus_calc_next_wait st now) =
        Min (insert 100000
               ((\<lambda>s. max 1000 (svc_next_run_us s - now)) `
                  {s \<in> set (services st). 0 < svc_next_run_us s})) div 1000"
    by (simp only: calc_next_wait_eq next_wait_loop_Min)
qed


theorem calc_next_wait_min_floor_cap_witness:
  "(0::int) \<le> 10000 \<and> (10000::int) < 2 ^ 63 \<and>
   esp_bus_calc_next_wait demo_bus 10000 = 2 \<and>
   Min (insert 100000
          ((\<lambda>s. max 1000 (svc_next_run_us s - 10000)) `
             {s \<in> set (services demo_bus). 0 < svc_next_run_us s})) div 1000 = 2 \<and>
   esp_bus_calc_next_wait demo_bus 14500 = 1 \<and>
   esp_bus_calc_next_wait (demo_bus\<lparr>services := []\<rparr>) 14500 = 100"
  using calc_next_wait_min_floor_cap [of demo_bus 10000]
    calc_next_wait_min_floor_cap [of "demo_bus\<lparr>services := []\<rparr>" 14500]
  by (simp add: svc_eval)

section \<open>The timer sweep\<close>

lemma find_svc_Some: "find_svc xs i = Some s \<Longrightarrow> svc_id s = i \<and> s \<in> set xs"
  by (induction xs) (auto split: if_splits)

lemma find_svc_append: "i \<notin> svc_id ` set A \<Longrightarrow> find_svc (A @ B) i = find_svc B i"
  by (induction A) auto

lemma find_svc_None: "(find_svc xs i = None) = (i \<notin> svc_id ` set xs)"
  by (induction xs) auto

lemma trigger_services [simp]:
  "services (esp_bus_trigger st ok) = services st"
  "next_svc_id (esp_bus_trigger st ok) = next_svc_id st"
  by (simp_all add: esp_bus_trigger_def)

lemma step_grow:
  assumes "\<not> is_cancel c"
  shows "\<exists>N. services (svc_call_step st c) = N @ services st \<and>
             next_svc_id st \<le> next_svc_id (svc_call_step st c) \<and>
             (\<forall>n \<in> set N. next_svc_id st \<le> svc_id n \<and> svc_id n < next_svc_id (svc_call_step st c)) \<and>
             distinct (map svc_id N)"
proof (cases c)
  case (Call_add_service fn ms ctx rep cok sok t)
  show ?thesis
  proof (cases "initialized st \<and> cok")
    case True
    let ?node = "\<lparr>svc_id = next_svc_id st, svc_fn = fn, svc_ctx = ctx,
                         svc_interval_ms = ms,
                         svc_next_run_us = int64 (t + int ms * 1000),
                         svc_repeat = rep\<rparr>"
    from True Call_add_service
    have "services (svc_call_step st c) = [?node] @ services st"
      "next_svc_id (svc_call_step st c) = next_svc_id st + 1"
      by (simp_all add: add_service_def Let_def)
    then show ?thesis by (intro exI [of _ "[?node]"]) simp
  next
    case False
    with Call_add_service have "svc_call_step st c = st"
      by (auto simp: add_service_def)
    then show ?thesis by (intro exI [of _ "[]"]) simp
  qed
next
  case (Call_remove_service i)
  with assms show ?thesis by simp
next
  case (Call_other f)
  then show ?thesis by (intro exI [of _ "[]"]) simp
qed

lemma calls_grow:
  assumes "\<forall>c \<in> set cs. \<not> is_cancel c"
  shows "\<exists>N. services (fold (\<lambda>c st'. svc_call_step st' c) cs st) = N @ services st \<and>
             next_svc_id st \<le> next_svc_id (fold (\<lambda>c st'. svc_call_step st' c) cs st) \<and>
             (\<forall>n \<in> set N. next_svc_id st \<le> svc_id n \<and>
                svc_id n < next_svc_id (fold (\<lambda>c st'. svc_call_step st' c) cs st)) \<and>
             distinct (map svc_id N)"
  using assms
proof (induction cs arbitrary: st)
  case Nil
  show ?case by (intro exI [of _ "[]"]) simp
next
  case (Cons c cs)
  let ?s1 = "svc_call_step st c"
  let ?s2 = "fold (\<lambda>c st'. svc_call_step st' c) cs ?s1"
  from Cons.prems have "\<not> is_cancel c" by simp
  from step_grow [OF this, of st] obtain N1 where
    n1: "services ?s1 = N1 @ services st" "next_svc_id st \<le> next_svc_id ?s1"
        "\<forall>n \<in> set N1. next_svc_id st \<le> svc_id n \<and> svc_id n < next_svc_id ?s1"
        "distinct (map svc_id N1)" by blast
  from Cons.prems have "\<forall>c \<in> set cs. \<not> is_cancel c" by simp
  from Cons.IH [OF this, of ?s1] obtain N2 where
    n2: "services ?s2 = N2 @ services ?s1" "next_svc_id ?s1 \<le> next_svc_id ?s2"
        "\<forall>n \<in> set N2. next_svc_id ?s1 \<le> svc_id n \<and> svc_id n < next_svc_id ?s2"
        "distinct (map svc_id N2)" by blast
  have "services ?s2 = (N2 @ N1) @ services st" using n1 n2 by simp
  moreover have "next_svc_id st \<le> next_svc_id ?s2" using n1 n2 by simp
  moreover have "\<forall>n \<in> set (N2 @ N1). next_svc_id st \<le> svc_id n \<and> svc_id n < next_svc_id ?s2"
    using n1 n2 by fastforce
  moreover have "distinct (map svc_id (N2 @ N1))" using n1 n2 by fastforce
  ultimately show ?case by (simp only: fold_simps) blast
qed


lemma run_callback_grow:
  assumes "\<forall>c \<in> set (code s st). \<not> is_cancel c"
  shows "\<exists>N. services (run_callback code s st) = N @ services st \<and>
             next_svc_id st \<le> next_svc_id (run_callback code s st) \<and>
             (\<forall>n \<in> set N. next_svc_id st \<le> svc_id n \<and>
                svc_id n < next_svc_id (run_callback code s st)) \<and>
             distinct (map svc_id N)"
  unfolding run_callback_def using assms by (rule calls_grow)

lemma dropWhile_live:
  assumes "set js \<subseteq> svc_id ` set xs"
  shows "dropWhile (\<lambda>j. find_svc xs j = None) js = js"
proof (cases js)
  case Nil
  then show ?thesis by simp
next
  case (Cons j js')
  with assms have "find_svc xs j \<noteq> None" by (simp add: find_svc_None)
  with Cons show ?thesis by auto
qed

lemma update_only:
  assumes "i \<notin> svc_id ` set xs"
  shows "map (\<lambda>n. if svc_id n = i then g n else n) xs = xs"
  using assms by (induction xs) auto

lemma run_due_grow:
  assumes nc: "\<forall>s st. \<forall>c \<in> set (code s st). \<not> is_cancel c"
  shows "services st = A @ P \<Longrightarrow> distinct (map svc_id (A @ P)) \<Longrightarrow>
         \<forall>n \<in> set (A @ P). svc_id n < next_svc_id st \<Longrightarrow>
         \<exists>st' N. run_due code st (map svc_id P) now =
                   Inr (st', map (\<lambda>s. Call_svc_fn (svc_id s) (svc_fn s) (svc_ctx s))
                              (filter (\<lambda>s. 0 < svc_next_run_us s \<and> svc_next_run_us s \<le> now) P)) \<and>
                 services st' =
                   N @ A @
                   map (\<lambda>s. if 0 < svc_next_run_us s \<and> svc_next_run_us s \<le> now
                             then s\<lparr>svc_next_run_us :=
                                     (if svc_repeat s
                                      then int64 (now + int (svc_interval_ms s) * 1000) else 0)\<rparr>
                             else s) P \<and>
                 next_svc_id st \<le> next_svc_id st' \<and>
                 (\<forall>n \<in> set N. next_svc_id st \<le> svc_id n \<and> svc_id n < next_svc_id st')"
proof (induction P arbitrary: st A)
  case Nil
  then show ?case by (intro exI [of _ st] exI [of _ "[]"]) simp
next
  case (Cons s P)
  let ?call = "\<lambda>s. Call_svc_fn (svc_id s) (svc_fn s) (svc_ctx s)"
  let ?due = "\<lambda>s. 0 < svc_next_run_us s \<and> svc_next_run_us s \<le> now"
  let ?upd = "\<lambda>s. if 0 < svc_next_run_us s \<and> svc_next_run_us s \<le> now
                             then s\<lparr>svc_next_run_us :=
                                     (if svc_repeat s
                                      then int64 (now + int (svc_interval_ms s) * 1000) else 0)\<rparr>
                             else s"
  let ?i = "svc_id s"
  from Cons.prems have iA: "?i \<notin> svc_id ` set A" and iP: "?i \<notin> svc_id ` set P" by auto
  have f: "find_svc (services st) ?i = Some s"
    using Cons.prems(1) iA by (simp add: find_svc_append)
  have "set (map svc_id P) \<subseteq> svc_id ` set (services st)"
    using Cons.prems(1) by auto
  then have tmp: "dropWhile (\<lambda>j. find_svc (services st) j = None) (map svc_id P) = map svc_id P"
    by (rule dropWhile_live)
  show ?case
  proof (cases "?due s")
    case False
    have s1: "services st = (A @ [s]) @ P" using Cons.prems(1) by simp
    have d1: "distinct (map svc_id ((A @ [s]) @ P))" using Cons.prems(2) by simp
    have b1: "\<forall>n \<in> set ((A @ [s]) @ P). svc_id n < next_svc_id st" using Cons.prems(3) by simp
    from Cons.IH [OF s1 d1 b1] obtain st' N where
      r: "run_due code st (map svc_id P) now = Inr (st', map ?call (filter ?due P))"
         "services st' = N @ (A @ [s]) @ map ?upd P"
         "next_svc_id st \<le> next_svc_id st'"
         "\<forall>n \<in> set N. next_svc_id st \<le> svc_id n \<and> svc_id n < next_svc_id st'"
      by blast
    have "run_due code st (map svc_id (s # P)) now = run_due code st (map svc_id P) now"
      using False f tmp by (auto simp: Let_def)
    with r False show ?thesis
      by (intro exI [of _ st'] exI [of _ N]) simp
  next
    case True
    let ?st1 = "run_callback code s st"
    from nc have "\<forall>c \<in> set (code s st). \<not> is_cancel c" by blast
    from run_callback_grow [of code s st, OF this] obtain N1 where
      n1: "services ?st1 = N1 @ services st" "next_svc_id st \<le> next_svc_id ?st1"
          "\<forall>n \<in> set N1. next_svc_id st \<le> svc_id n \<and> svc_id n < next_svc_id ?st1"
          "distinct (map svc_id N1)" by blast
    have iN: "?i \<notin> svc_id ` set N1"
      using n1(3) Cons.prems(3) by fastforce
    have f1: "find_svc (services ?st1) ?i = Some s"
      using n1(1) iN f by (simp add: find_svc_append)
    let ?nr = "if svc_repeat s then int64 (now + int (svc_interval_ms s) * 1000) else 0"
    let ?st2 = "?st1\<lparr>services :=
                   map (\<lambda>n. if svc_id n = ?i then n\<lparr>svc_next_run_us := ?nr\<rparr> else n)
                     (services ?st1)\<rparr>"
    have u: "map (\<lambda>n. if svc_id n = ?i then n\<lparr>svc_next_run_us := ?nr\<rparr> else n) (services ?st1)
               = (N1 @ A @ [?upd s]) @ P"
      using n1(1) Cons.prems(1) iN iA iP True by (simp add: update_only)
    have s2: "services ?st2 = (N1 @ A @ [?upd s]) @ P" using u by simp
    have ids: "map svc_id ((N1 @ A @ [?upd s]) @ P) = map svc_id N1 @ map svc_id (A @ s # P)"
      by simp
    have lo: "\<forall>x \<in> set (map svc_id (A @ s # P)). x < next_svc_id st"
      using Cons.prems(3) by auto
    have hi: "\<forall>x \<in> set (map svc_id N1). next_svc_id st \<le> x \<and> x < next_svc_id ?st1"
      using n1(3) by auto
    have disj: "set (map svc_id N1) \<inter> set (map svc_id (A @ s # P)) = {}"
    proof (rule ccontr)
      assume "set (map svc_id N1) \<inter> set (map svc_id (A @ s # P)) \<noteq> {}"
      then obtain x where "x \<in> set (map svc_id N1)" "x \<in> set (map svc_id (A @ s # P))"
        by blast
      with lo hi have "next_svc_id st \<le> x" "x < next_svc_id st" by blast+
      then show False by simp
    qed
    have d2: "distinct (map svc_id ((N1 @ A @ [?upd s]) @ P))"
      unfolding ids using Cons.prems(2) n1(4) disj by (simp only: distinct_append)
    have b2: "\<forall>n \<in> set ((N1 @ A @ [?upd s]) @ P). svc_id n < next_svc_id ?st2"
    proof
      fix n assume "n \<in> set ((N1 @ A @ [?upd s]) @ P)"
      then have "svc_id n \<in> set (map svc_id ((N1 @ A @ [?upd s]) @ P))"
        by (simp only: set_map) (rule imageI)
      then have "svc_id n \<in> set (map svc_id N1) \<or> svc_id n \<in> set (map svc_id (A @ s # P))"
        unfolding ids by (simp only: set_append Un_iff)
      with lo hi n1(2) have "svc_id n < next_svc_id ?st1" by fastforce
      then show "svc_id n < next_svc_id ?st2" by simp
    qed
    from Cons.IH [OF s2 d2 b2] obtain st' N where
      r: "run_due code ?st2 (map svc_id P) now = Inr (st', map ?call (filter ?due P))"
         "services st' = N @ (N1 @ A @ [?upd s]) @ map ?upd P"
         "next_svc_id ?st2 \<le> next_svc_id st'"
         "\<forall>n \<in> set N. next_svc_id ?st2 \<le> svc_id n \<and> svc_id n < next_svc_id st'"
      by blast
    have run: "run_due code st (map svc_id (s # P)) now =
            Inr (st', ?call s # map ?call (filter ?due P))"
      using True f f1 tmp r(1) by (simp add: Let_def)
    have sv: "services st' = (N @ N1) @ A @ map ?upd (s # P)" using r(2) by simp
    have nx: "next_svc_id st \<le> next_svc_id st'" using n1(2) r(3) by simp
    have r3: "next_svc_id ?st1 \<le> next_svc_id st'" using r(3) by simp
    have r4: "\<forall>n \<in> set N. next_svc_id ?st1 \<le> svc_id n \<and> svc_id n < next_svc_id st'"
      using r(4) by simp
    have nn: "\<forall>n \<in> set (N @ N1). next_svc_id st \<le> svc_id n \<and> svc_id n < next_svc_id st'"
    proof
      fix n assume "n \<in> set (N @ N1)"
      then have "n \<in> set N \<or> n \<in> set N1" by simp
      then show "next_svc_id st \<le> svc_id n \<and> svc_id n < next_svc_id st'"
      proof
        assume "n \<in> set N"
        with r4 have "next_svc_id ?st1 \<le> svc_id n" "svc_id n < next_svc_id st'" by blast+
        with n1(2) show ?thesis by linarith
      next
        assume "n \<in> set N1"
        with n1(3) have "next_svc_id st \<le> svc_id n" "svc_id n < next_svc_id ?st1" by blast+
        with r3 show ?thesis by linarith
      qed
    qed
    from run sv nx nn True show ?thesis
      by (intro exI [of _ st'] exI [of _ "N @ N1"]) simp
  qed
qed

lemma cleanup_expired_filter:
  "cleanup_expired ys = filter (\<lambda>s. svc_repeat s \<or> svc_next_run_us s \<noteq> 0) ys"
  by (induction ys) auto

lemma cleanup_fired:
  "cleanup_expired
     (map (\<lambda>s. if 0 < svc_next_run_us s \<and> svc_next_run_us s \<le> now
               then s\<lparr>svc_next_run_us :=
                       (if svc_repeat s
                        then int64 (now + int (svc_interval_ms s) * 1000) else 0)\<rparr>
               else s) xs) =
     map (\<lambda>s. if 0 < svc_next_run_us s \<and> svc_next_run_us s \<le> now
               then s\<lparr>svc_next_run_us := int64 (now + int (svc_interval_ms s) * 1000)\<rparr>
               else s)
       (filter (\<lambda>s. svc_repeat s \<or>
                     \<not> (0 < svc_next_run_us s \<and> svc_next_run_us s \<le> now) \<and>
                     svc_next_run_us s \<noteq> 0) xs)"
  unfolding cleanup_expired_filter by (induction xs) auto

lemma run_services_grow:
  assumes "distinct (map svc_id (services st))"
    and "\<forall>n \<in> set (services st). svc_id n < next_svc_id st"
    and "\<forall>s st'. \<forall>c \<in> set (code s st'). \<not> is_cancel c"
  shows "\<exists>st' N. esp_bus_run_services code st now =
           Inr (st', map (\<lambda>s. Call_svc_fn (svc_id s) (svc_fn s) (svc_ctx s))
                      (filter (\<lambda>s. 0 < svc_next_run_us s \<and> svc_next_run_us s \<le> now)
                         (services st))) \<and>
         services st' =
           cleanup_expired N @
           map (\<lambda>s. if 0 < svc_next_run_us s \<and> svc_next_run_us s \<le> now
                     then s\<lparr>svc_next_run_us := int64 (now + int (svc_interval_ms s) * 1000)\<rparr>
                     else s)
             (filter (\<lambda>s. svc_repeat s \<or>
                           \<not> (0 < svc_next_run_us s \<and> svc_next_run_us s \<le> now) \<and>
                           svc_next_run_us s \<noteq> 0) (services st)) \<and>
         (\<forall>n \<in> set N. next_svc_id st \<le> svc_id n)"
proof -
  have 1: "services st = [] @ services st" by simp
  have 2: "distinct (map svc_id ([] @ services st))" using assms(1) by simp
  have 3: "\<forall>n \<in> set ([] @ services st). svc_id n < next_svc_id st" using assms(2) by simp
  from run_due_grow [OF assms(3) 1 2 3, of now] obtain st1 N where
    r: "run_due code st (map svc_id (services st)) now =
          Inr (st1, map (\<lambda>s. Call_svc_fn (svc_id s) (svc_fn s) (svc_ctx s))
                     (filter (\<lambda>s. 0 < svc_next_run_us s \<and> svc_next_run_us s \<le> now)
                        (services st)))"
       "services st1 = N @ [] @
          map (\<lambda>s. if 0 < svc_next_run_us s \<and> svc_next_run_us s \<le> now
                             then s\<lparr>svc_next_run_us :=
                                     (if svc_repeat s
                                      then int64 (now + int (svc_interval_ms s) * 1000) else 0)\<rparr>
                             else s) (services st)"
       "\<forall>n \<in> set N. next_svc_id st \<le> svc_id n \<and> svc_id n < next_svc_id st1"
    by blast
  let ?st' = "st1\<lparr>services := cleanup_expired (services st1)\<rparr>"
  have e: "esp_bus_run_services code st now =
           Inr (?st', map (\<lambda>s. Call_svc_fn (svc_id s) (svc_fn s) (svc_ctx s))
                      (filter (\<lambda>s. 0 < svc_next_run_us s \<and> svc_next_run_us s \<le> now)
                         (services st)))"
    by (simp add: esp_bus_run_services_def r(1))
  have c: "cleanup_expired (xs @ ys) = cleanup_expired xs @ cleanup_expired ys" for xs ys
    by (simp add: cleanup_expired_filter)
  have s: "services ?st' = cleanup_expired N @
           map (\<lambda>s. if 0 < svc_next_run_us s \<and> svc_next_run_us s \<le> now
                     then s\<lparr>svc_next_run_us := int64 (now + int (svc_interval_ms s) * 1000)\<rparr>
                     else s)
             (filter (\<lambda>s. svc_repeat s \<or>
                           \<not> (0 < svc_next_run_us s \<and> svc_next_run_us s \<le> now) \<and>
                           svc_next_run_us s \<noteq> 0) (services st))"
    using r(2) by (simp add: c cleanup_fired)
  from r(3) have n: "\<forall>n \<in> set N. next_svc_id st \<le> svc_id n" by blast
  from e s n show ?thesis by blast
qed

lemma fired_ids_calls:
  "fired_ids (map (\<lambda>s. Call_svc_fn (svc_id s) (svc_fn s) (svc_ctx s)) xs) = map svc_id xs"
  by (induction xs) auto

lemma count_list_distinct: "distinct xs \<Longrightarrow> x \<in> set xs \<Longrightarrow> count_list xs x = 1"
  by (induction xs) auto

lemma run_due_fired:
  "run_due code st p now = Inr (st', tr) \<Longrightarrow> set (fired_ids tr) \<subseteq> set p"
proof (induction code st p now arbitrary: st' tr rule: run_due.induct)
  case (1 code st now)
  then show ?case by simp
next
  case (2 code st i rest now)
  from "2.prems" obtain s where f: "find_svc (services st) i = Some s"
    by (auto split: option.splits)
  let ?tmp = "dropWhile (\<lambda>j. find_svc (services st) j = None) rest"
  have sub: "set ?tmp \<subseteq> set rest" by (auto dest: set_dropWhileD)
  from find_svc_Some [OF f] have id: "svc_id s = i" by simp
  show ?case
  proof (cases "svc_next_run_us s \<le> 0")
    case True
    with "2.prems" f have "run_due code st ?tmp now = Inr (st', tr)" by (simp add: Let_def)
    from "2.IH"(1) [OF f refl True this] sub show ?thesis by auto
  next
    case False
    note nz = False
    show ?thesis
    proof (cases "svc_next_run_us s \<le> now")
      case False
      with "2.prems" f nz have "run_due code st ?tmp now = Inr (st', tr)" by (simp add: Let_def)
      from "2.IH"(3) [OF f refl nz _ this] False sub show ?thesis by auto
    next
      case True
      let ?st1 = "run_callback code s st"
      from "2.prems" f nz True obtain s1 where f1: "find_svc (services ?st1) i = Some s1"
        by (auto simp: Let_def split: option.splits)
      let ?nr = "if svc_repeat s1 then int64 (now + int (svc_interval_ms s1) * 1000) else 0"
      let ?st2 = "?st1\<lparr>services :=
                   map (\<lambda>n. if svc_id n = i then n\<lparr>svc_next_run_us := ?nr\<rparr> else n)
                     (services ?st1)\<rparr>"
      from "2.prems" f nz True f1 obtain tr2 where
        r: "run_due code ?st2 ?tmp now = Inr (st', tr2)"
           "tr = Call_svc_fn (svc_id s) (svc_fn s) (svc_ctx s) # tr2"
        by (auto simp: Let_def split: sum.splits)
      from "2.IH"(2) [OF f refl nz _ refl f1 refl refl r(1)] True
      have "set (fired_ids tr2) \<subseteq> set ?tmp" by simp
      with r(2) sub id show ?thesis by auto
    qed
  qed
qed

lemma self_cancel_fault:
  assumes "initialized st" "services st = s # rest" "svc_id s \<notin> svc_id ` set rest"
    "0 \<le> svc_id s" "0 < svc_next_run_us s" "svc_next_run_us s \<le> now"
    "code s st = [Call_remove_service (svc_id s)]"
  shows "esp_bus_run_services code st now = Inl Use_after_free"
proof -
  have "run_callback code s st = st\<lparr>services := rest\<rparr>"
    using assms by (simp add: run_callback_def remove_service_def)
  moreover have "find_svc rest (svc_id s) = None"
    using assms(3) by (simp add: find_svc_None)
  ultimately have "run_due code st (svc_id s # map svc_id rest) now = Inl Use_after_free"
    using assms by (simp add: Let_def)
  then show ?thesis using assms(2) by (simp add: esp_bus_run_services_def)
qed

lemma one_shot_retired:
  assumes d: "distinct (map svc_id (services st))"
    and b: "\<forall>n \<in> set (services st). svc_id n < next_svc_id st"
    and nc: "\<forall>s st'. \<forall>c \<in> set (code s st'). \<not> is_cancel c"
    and s: "s \<in> set (services st)" "\<not> svc_repeat s" "0 < svc_next_run_us s"
      "svc_next_run_us s \<le> now"
  shows "\<exists>st' tr. esp_bus_run_services code st now = Inr (st', tr) \<and>
           count_list (fired_ids tr) (svc_id s) = 1 \<and>
           svc_id s \<notin> svc_id ` set (services st') \<and>
           (\<forall>code' now' st'' tr'.
              esp_bus_run_services code' st' now' = Inr (st'', tr') \<longrightarrow>
              svc_id s \<notin> set (fired_ids tr'))"
proof -
  let ?due = "\<lambda>s. 0 < svc_next_run_us s \<and> svc_next_run_us s \<le> now"
  let ?keep = "\<lambda>s. svc_repeat s \<or> \<not> ?due s \<and> svc_next_run_us s \<noteq> 0"
  let ?rearm = "\<lambda>s. if 0 < svc_next_run_us s \<and> svc_next_run_us s \<le> now
                     then s\<lparr>svc_next_run_us := int64 (now + int (svc_interval_ms s) * 1000)\<rparr>
                     else s"
  let ?tr = "map (\<lambda>s. Call_svc_fn (svc_id s) (svc_fn s) (svc_ctx s)) (filter ?due (services st))"
  from run_services_grow [OF d b nc, of now] obtain st' N where
    r: "esp_bus_run_services code st now = Inr (st', ?tr)"
       "services st' = cleanup_expired N @ map ?rearm (filter ?keep (services st))"
       "\<forall>n \<in> set N. next_svc_id st \<le> svc_id n"
    by blast
  have "distinct (map svc_id (filter ?due (services st)))"
    using d by (rule distinct_map_filter)
  moreover have "svc_id s \<in> set (map svc_id (filter ?due (services st)))"
    using s by auto
  ultimately have c: "count_list (fired_ids ?tr) (svc_id s) = 1"
    by (simp only: fired_ids_calls count_list_distinct)
  have inj: "inj_on svc_id (set (services st))"
    using d by (simp add: distinct_map)
  have old: "svc_id s \<notin> svc_id ` set (filter ?keep (services st))"
  proof
    assume "svc_id s \<in> svc_id ` set (filter ?keep (services st))"
    then obtain u where u: "u \<in> set (services st)" "?keep u" "svc_id u = svc_id s" by auto
    with inj s have "u = s" by (auto dest: inj_onD)
    with u s show False by auto
  qed
  have "map svc_id (map ?rearm (filter ?keep (services st))) =
          map svc_id (filter ?keep (services st))"
    by (simp add: comp_def if_distrib [of svc_id])
  then have ids: "svc_id ` set (map ?rearm (filter ?keep (services st))) =
               svc_id ` set (filter ?keep (services st))"
    by (metis set_map)
  have new: "svc_id s \<notin> svc_id ` set (cleanup_expired N)"
  proof
    assume "svc_id s \<in> svc_id ` set (cleanup_expired N)"
    then obtain n where "n \<in> set N" "svc_id n = svc_id s"
      by (auto simp: cleanup_expired_filter)
    with r(3) have "next_svc_id st \<le> svc_id s" by auto
    with b s(1) show False by auto
  qed
  have gone: "svc_id s \<notin> svc_id ` set (services st')"
    using old new ids by (simp add: r(2) image_Un)
  have later: "svc_id s \<notin> set (fired_ids tr')"
    if "esp_bus_run_services code' st' now' = Inr (st'', tr')" for code' now' st'' tr'
  proof -
    from that obtain st1 where "run_due code' st' (map svc_id (services st')) now' = Inr (st1, tr')"
      by (auto simp: esp_bus_run_services_def split: sum.splits)
    from run_due_fired [OF this] have "set (fired_ids tr') \<subseteq> svc_id ` set (services st')"
      by simp
    with gone show ?thesis by blast
  qed
  from r(1) c gone later show ?thesis by blast
qed

text \<open>
  Claim C8 does not hold of every sweep: a timer callback may call back into the bus, and
  the first loop of \<open>esp_bus_run_services\<close> goes on using the node \<open>s\<close> after the
  callback has returned. It holds of every sweep in which no callback cancels a timer,
  whatever else the callbacks do (registering timers included, as \<open>led_blink_step\<close>
  does): with distinct identifiers below the counter, the sweep at time \<open>now\<close> calls the
  callback of every timer with a positive due time not after \<open>now\<close>, once each, in
  registry order, and of no other; a repeating timer that fired is rearmed to \<open>now\<close>
  plus its interval (the exact sum as long as it fits \<open>int64_t\<close>), a one-shot timer
  that fired is set to 0 and unlinked by the second pass, the other timers stay as they
  are, and the timers registered during the sweep stand before them. A due one-shot timer
  is called exactly once, its identifier is gone from the registry afterwards, and no
  later sweep that completes calls it. But when the callback of the first timer, being
  due, cancels that very timer (\<open>esp_bus_cancel\<close> or \<open>esp_bus_tick_del\<close> with its own
  identifier), the node is freed inside the callback and the loop then reads
  \<open>s->repeat\<close> and writes \<open>s->next_run_us\<close> in it: the sweep uses freed memory.
\<close>

theorem run_services_reentrant:
  "(distinct (map svc_id (services st)) \<and> (\<forall>n \<in> set (services st). svc_id n < next_svc_id st) \<and>
    (\<forall>s st'. \<forall>c \<in> set (code s st'). \<not> is_cancel c) \<longrightarrow>
      (\<exists>st' N.
         esp_bus_run_services code st now =
           Inr (st', map (\<lambda>s. Call_svc_fn (svc_id s) (svc_fn s) (svc_ctx s))
                      (filter (\<lambda>s. 0 < svc_next_run_us s \<and> svc_next_run_us s \<le> now)
                         (services st))) \<and>
         services st' =
           cleanup_expired N @
           map (\<lambda>s. if 0 < svc_next_run_us s \<and> svc_next_run_us s \<le> now
                     then s\<lparr>svc_next_run_us := int64 (now + int (svc_interval_ms s) * 1000)\<rparr>
                     else s)
             (filter (\<lambda>s. svc_repeat s \<or>
                           \<not> (0 < svc_next_run_us s \<and> svc_next_run_us s \<le> now) \<and>
                           svc_next_run_us s \<noteq> 0) (services st)) \<and>
         (\<forall>n \<in> set N. next_svc_id st \<le> svc_id n))) \<and>
   (0 \<le> now \<and> now + int ms * 1000 < 2 ^ 63 \<longrightarrow>
      int64 (now + int ms * 1000) = now + int ms * 1000) \<and>
   (distinct (map svc_id (services st)) \<and> (\<forall>n \<in> set (services st). svc_id n < next_svc_id st) \<and>
    (\<forall>s st'. \<forall>c \<in> set (code s st'). \<not> is_cancel c) \<and>
    s \<in> set (services st) \<and> \<not> svc_repeat s \<and> 0 < svc_next_run_us s \<and>
    svc_next_run_us s \<le> now \<longrightarrow>
      (\<exists>st' tr. esp_bus_run_services code st now = Inr (st', tr) \<and>
         count_list (fired_ids tr) (svc_id s) = 1 \<and>
         svc_id s \<notin> svc_id ` set (services st') \<and>
         (\<forall>code' now' st'' tr'.
            esp_bus_run_services code' st' now' = Inr (st'', tr') \<longrightarrow>
            svc_id s \<notin> set (fired_ids tr')))) \<and>
   (initialized st \<and> services st = s # rest \<and> svc_id s \<notin> svc_id ` set rest \<and>
    0 \<le> svc_id s \<and> 0 < svc_next_run_us s \<and> svc_next_run_us s \<le> now \<and>
    code s st = [Call_remove_service (svc_id s)] \<longrightarrow>
      esp_bus_run_services code st now = Inl Use_after_free)"
proof (intro conjI impI)
  assume "distinct (map svc_id (services st)) \<and>
    (\<forall>n \<in> set (services st). svc_id n < next_svc_id st) \<and>
    (\<forall>s st'. \<forall>c \<in> set (code s st'). \<not> is_cancel c)"
  then have h: "distinct (map svc_id (services st))"
    "\<forall>n \<in> set (services st). svc_id n < next_svc_id st"
    "\<forall>s st'. \<forall>c \<in> set (code s st'). \<not> is_cancel c" by blast+
  show "\<exists>st' N.
         esp_bus_run_services code st now =
           Inr (st', map (\<lambda>s. Call_svc_fn (svc_id s) (svc_fn s) (svc_ctx s))
                      (filter (\<lambda>s. 0 < svc_next_run_us s \<and> svc_next_run_us s \<le> now)
                         (services st))) \<and>
         services st' =
           cleanup_expired N @
           map (\<lambda>s. if 0 < svc_next_run_us s \<and> svc_next_run_us s \<le> now
                     then s\<lparr>svc_next_run_us := int64 (now + int (svc_interval_ms s) * 1000)\<rparr>
                     else s)
             (filter (\<lambda>s. svc_repeat s \<or>
                           \<not> (0 < svc_next_run_us s \<and> svc_next_run_us s \<le> now) \<and>
                           svc_next_run_us s \<noteq> 0) (services st)) \<and>
         (\<forall>n \<in> set N. next_svc_id st \<le> svc_id n)"
    by (rule run_services_grow [OF h])
next
  assume "0 \<le> now \<and> now + int ms * 1000 < 2 ^ 63"
  then show "int64 (now + int ms * 1000) = now + int ms * 1000"
    by (intro int64_id) auto
next
  assume "distinct (map svc_id (services st)) \<and>
    (\<forall>n \<in> set (services st). svc_id n < next_svc_id st) \<and>
    (\<forall>s st'. \<forall>c \<in> set (code s st'). \<not> is_cancel c) \<and>
    s \<in> set (services st) \<and> \<not> svc_repeat s \<and> 0 < svc_next_run_us s \<and>
    svc_next_run_us s \<le> now"
  then have h: "distinct (map svc_id (services st))"
    "\<forall>n \<in> set (services st). svc_id n < next_svc_id st"
    "\<forall>s st'. \<forall>c \<in> set (code s st'). \<not> is_cancel c"
    "s \<in> set (services st)" "\<not> svc_repeat s" "0 < svc_next_run_us s"
    "svc_next_run_us s \<le> now" by blast+
  show "\<exists>st' tr. esp_bus_run_services code st now = Inr (st', tr) \<and>
         count_list (fired_ids tr) (svc_id s) = 1 \<and>
         svc_id s \<notin> svc_id ` set (services st') \<and>
         (\<forall>code' now' st'' tr'.
            esp_bus_run_services code' st' now' = Inr (st'', tr') \<longrightarrow>
            svc_id s \<notin> set (fired_ids tr'))"
    by (rule one_shot_retired [OF h])
next
  assume "initialized st \<and> services st = s # rest \<and> svc_id s \<notin> svc_id ` set rest \<and>
    0 \<le> svc_id s \<and> 0 < svc_next_run_us s \<and> svc_next_run_us s \<le> now \<and>
    code s st = [Call_remove_service (svc_id s)]"
  then have h: "initialized st" "services st = s # rest" "svc_id s \<notin> svc_id ` set rest"
    "0 \<le> svc_id s" "0 < svc_next_run_us s" "svc_next_run_us s \<le> now"
    "code s st = [Call_remove_service (svc_id s)]" by blast+
  show "esp_bus_run_services code st now = Inl Use_after_free"
    by (rule self_cancel_fault [of st s rest now code, OF h])
qed

theorem run_services_reentrant_witness:
  "distinct (map svc_id (services demo_bus)) \<and>
   list_all (\<lambda>n. svc_id n < next_svc_id demo_bus) (services demo_bus) \<and>
   \<not> is_cancel (Call_add_service 51 7 (Some 8) False True True 20040) \<and>
   esp_bus_run_services demo_blink demo_bus 20000 =
     Inr (demo_bus\<lparr>services :=
            [\<lparr>svc_id = 3, svc_fn = 51, svc_ctx = Some 8, svc_interval_ms = 7,
              svc_next_run_us = 27040, svc_repeat = False\<rparr>,
             \<lparr>svc_id = 2, svc_fn = 50, svc_ctx = None, svc_interval_ms = 20,
              svc_next_run_us = 30000, svc_repeat = True\<rparr>,
             \<lparr>svc_id = 0, svc_fn = 52, svc_ctx = None, svc_interval_ms = 10,
              svc_next_run_us = 30000, svc_repeat = True\<rparr>],
            next_svc_id := 4,
            queue :=
              [\<lparr>msg_type = MSG_TRIGGER, msg_pattern = [], msg_data = None, msg_len = 0,
                msg_res_buf = None, msg_res_size = 0, msg_res_len = None,
                msg_result = None, msg_done = None\<rparr>]\<rparr>,
          [Call_svc_fn 1 51 (Some 8), Call_svc_fn 0 52 None]) \<and>
   (0::int) \<le> 20000 \<and> (20000::int) + int 10 * 1000 < 2 ^ 63 \<and>
   int64 (20000 + int 10 * 1000) = 30000 \<and>
   services demo_bus ! 1 \<in> set (services demo_bus) \<and>
   \<not> svc_repeat (services demo_bus ! 1) \<and>
   0 < svc_next_run_us (services demo_bus ! 1) \<and>
   svc_next_run_us (services demo_bus ! 1) \<le> 20000 \<and>
   count_list (fired_ids [Call_svc_fn 1 51 (Some 8), Call_svc_fn 0 52 None]) 1 = 1 \<and>
   initialized demo_bus \<and> 0 \<le> svc_id (hd (services demo_bus)) \<and>
   0 < svc_next_run_us (hd (services demo_bus)) \<and>
   svc_next_run_us (hd (services demo_bus)) \<le> 40000 \<and>
   demo_stop_self (hd (services demo_bus)) demo_bus = [Call_remove_service 2] \<and>
   esp_bus_run_services demo_stop_self demo_bus 40000 = Inl Use_after_free \<and>
   esp_bus_run_services demo_stop_self
     (demo_bus\<lparr>services :=
        [\<lparr>svc_id = 1, svc_fn = 51, svc_ctx = Some 8, svc_interval_ms = 5,
          svc_next_run_us = 15000, svc_repeat = False\<rparr>]\<rparr>) 20000 = Inl Use_after_free"
  using run_services_reentrant [where st = demo_bus and code = demo_blink and now = 20000
      and ms = 10 and s = "services demo_bus ! 1" and rest = "[]"]
    run_services_reentrant [where st = demo_bus and code = demo_stop_self and now = 40000
      and ms = 10 and s = "hd (services demo_bus)" and rest = "tl (services demo_bus)"]
  by (simp add: svc_eval esp_bus_run_services_def run_callback_def add_service_def
       remove_service_def esp_bus_trigger_def demo_blink_def demo_stop_self_def)

section \<open>Removing routes\<close>

lemma off_loop_filter:
  "off_loop rs ep rp =
     (filter (\<lambda>r. \<not> (route_evt_pattern r = ep \<and> (rp = None \<or> route_req_pattern r = the rp))) rs,
      concat (map (\<lambda>r. free_data (route_req_data r))
        (filter (\<lambda>r. route_evt_pattern r = ep \<and> (rp = None \<or> route_req_pattern r = the rp)) rs)))"
  by (induction rs) (auto simp: Let_def)

text \<open>
  Claim C9. On an initialised bus, \<open>esp_bus_off\<close> with a null request pattern removes
  every route whose event pattern equals the one given; with a request pattern it
  removes exactly the routes whose event pattern and request pattern both equal the
  arguments. All other routes stay, in their order and unchanged, and the payload of
  every removed route that has one is freed.
\<close>

theorem off_removes_matching_routes:
  "(initialized st \<longrightarrow>
      esp_bus_off st (Some ep) None =
        (ESP_OK,
         st\<lparr>routes := filter (\<lambda>r. route_evt_pattern r \<noteq> ep) (routes st)\<rparr>,
         concat (map (\<lambda>r. free_data (route_req_data r))
                  (filter (\<lambda>r. route_evt_pattern r = ep) (routes st))))) \<and>
   (initialized st \<longrightarrow>
      esp_bus_off st (Some ep) (Some rp) =
        (ESP_OK,
         st\<lparr>routes := filter (\<lambda>r. \<not> (route_evt_pattern r = ep \<and> route_req_pattern r = rp))
                         (routes st)\<rparr>,
         concat (map (\<lambda>r. free_data (route_req_data r))
                  (filter (\<lambda>r. route_evt_pattern r = ep \<and> route_req_pattern r = rp)
                     (routes st)))))"
  by (simp add: esp_bus_off_def off_loop_filter)


theorem off_removes_matching_routes_witness:
  "initialized demo_bus \<and>
   esp_bus_off demo_bus (Some ''btn1:short'') None =
     (ESP_OK,
      demo_bus\<lparr>routes := [\<lparr>route_evt_pattern = ''btn1:long'', route_req_pattern = ''led1.on'',
                 route_req_data = None, route_req_len = 0,
                 route_transform = None, route_ctx = None\<rparr>]\<rparr>,
      [Free [1, 2], Free [3]]) \<and>
   esp_bus_off demo_bus (Some ''btn1:short'') (Some ''led1.blink'') =
     (ESP_OK,
      demo_bus\<lparr>routes := [\<lparr>route_evt_pattern = ''btn1:short'', route_req_pattern = ''led1.toggle'',
                 route_req_data = Some [1, 2], route_req_len = 2,
                 route_transform = None, route_ctx = None\<rparr>,
                \<lparr>route_evt_pattern = ''btn1:long'', route_req_pattern = ''led1.on'',
                 route_req_data = None, route_req_len = 0,
                 route_transform = None, route_ctx = None\<rparr>]\<rparr>,
      [Free [3]])"
  using off_removes_matching_routes [of demo_bus "''btn1:short''" "''led1.blink''"]
  by (simp add: demo_simps free_data_def)

section \<open>Events the worker drops\<close>

lemma parse_with_dot:
  assumes "CHR ''.'' \<in> set p"
  shows "esp_bus_parse_pattern p \<noteq> Some (m, e, CHR '':'')"
proof -
  from strchr_Some [OF assms] obtain i where "strchr p (CHR ''.'') = Some i" by blast
  then show ?thesis by (simp add: esp_bus_parse_pattern_def)
qed

lemma process_message_evt_dropped:
  assumes "msg_type msg = MSG_EVT"
    and "\<forall>m e. esp_bus_parse_pattern (msg_pattern msg) \<noteq> Some (m, e, CHR '':'')"
  shows "process_message st msg = free_data (msg_data msg)"
  using assms by (auto simp: process_message_def split: option.splits)

lemma emit_enqueues:
  assumes "initialized st" "malloc_ok \<or> data = None \<or> len = 0"
  shows "esp_bus_emit st malloc_ok True (Some src) (Some evt) data len =
     (ESP_OK,
      st\<lparr>queue := queue st @
           [\<lparr>msg_type = MSG_EVT, msg_pattern = event_key src evt,
             msg_data = (if data \<noteq> None \<and> len > 0 then Some (take len (the data)) else None),
             msg_len = (if data \<noteq> None \<and> len > 0 then len else 0),
             msg_res_buf = None, msg_res_size = 0, msg_res_len = None,
             msg_result = None, msg_done = None\<rparr>]\<rparr>,
      if data \<noteq> None \<and> len > 0 then [Malloc (take len (the data))] else [])"
  using assms by (auto simp: esp_bus_emit_def Let_def)

text \<open>
  Claim C10. An event envelope whose stored pattern the parser does not return with the
  colon as separator is dropped by the worker: \<open>process_message\<close> does nothing but
  free the payload, so no subscriber, transform or request handler is called and nothing
  is reported through the error callback or the log. Every pattern with a dot in it is
  such a pattern, since the parser looks for the dot first. So an event emitted from a
  source whose name has a dot is accepted by \<open>esp_bus_emit\<close> with \<open>ESP_OK\<close> and
  then dropped, whatever the subscriptions and routes are.
\<close>

theorem event_not_reparsed_is_dropped:
  "(msg_type msg = MSG_EVT \<and>
    (\<forall>m e. esp_bus_parse_pattern (msg_pattern msg) \<noteq> Some (m, e, CHR '':'')) \<longrightarrow>
      process_message st msg = free_data (msg_data msg)) \<and>
   (CHR ''.'' \<in> set p \<longrightarrow> (\<forall>m e. esp_bus_parse_pattern p \<noteq> Some (m, e, CHR '':''))) \<and>
   (initialized st \<and> CHR ''.'' \<in> set (event_key src evt) \<and>
    (malloc_ok \<or> data = None \<or> len = 0) \<longrightarrow>
      (\<exists>msg'. esp_bus_emit st malloc_ok True (Some src) (Some evt) data len =
                (ESP_OK, st\<lparr>queue := queue st @ [msg']\<rparr>,
                 if data \<noteq> None \<and> len > 0 then [Malloc (take len (the data))] else []) \<and>
              msg_type msg' = MSG_EVT \<and> msg_pattern msg' = event_key src evt \<and>
              process_message st' msg' = free_data (msg_data msg')))"
proof (intro conjI impI)
  assume "msg_type msg = MSG_EVT \<and>
    (\<forall>m e. esp_bus_parse_pattern (msg_pattern msg) \<noteq> Some (m, e, CHR '':''))"
  then show "process_message st msg = free_data (msg_data msg)"
    by (simp add: process_message_evt_dropped)
next
  assume "CHR ''.'' \<in> set p"
  then show "\<forall>m e. esp_bus_parse_pattern p \<noteq> Some (m, e, CHR '':'')"
    by (simp add: parse_with_dot)
next
  assume a: "initialized st \<and> CHR ''.'' \<in> set (event_key src evt) \<and>
    (malloc_ok \<or> data = None \<or> len = 0)"
  let ?msg = "\<lparr>msg_type = MSG_EVT, msg_pattern = event_key src evt,
             msg_data = (if data \<noteq> None \<and> len > 0 then Some (take len (the data)) else None),
             msg_len = (if data \<noteq> None \<and> len > 0 then len else 0),
             msg_res_buf = None, msg_res_size = 0, msg_res_len = None,
             msg_result = None, msg_done = None\<rparr>"
  from a have e: "esp_bus_emit st malloc_ok True (Some src) (Some evt) data len =
                (ESP_OK, st\<lparr>queue := queue st @ [?msg]\<rparr>,
                 if data \<noteq> None \<and> len > 0 then [Malloc (take len (the data))] else [])"
    by (intro emit_enqueues) simp_all
  from a have "\<forall>m e. esp_bus_parse_pattern (msg_pattern ?msg) \<noteq> Some (m, e, CHR '':'')"
    by (simp add: parse_with_dot)
  then have "process_message st' ?msg = free_data (msg_data ?msg)"
    by (intro process_message_evt_dropped) simp_all
  with e show "\<exists>msg'. esp_bus_emit st malloc_ok True (Some src) (Some evt) data len =
                (ESP_OK, st\<lparr>queue := queue st @ [msg']\<rparr>,
                 if data \<noteq> None \<and> len > 0 then [Malloc (take len (the data))] else []) \<and>
              msg_type msg' = MSG_EVT \<and> msg_pattern msg' = event_key src evt \<and>
              process_message st' msg' = free_data (msg_data msg')"
    by (intro exI [of _ ?msg]) simp
qed

theorem event_not_reparsed_is_dropped_witness:
  "msg_type (demo_evt ''wifi.sta:up'') = MSG_EVT \<and>
   CHR ''.'' \<in> set ''wifi.sta:up'' \<and>
   process_message demo_bus (demo_evt ''wifi.sta:up'') = [Free [5]] \<and>
   process_message demo_bus (demo_evt ''wifi:up'') =
     [Call_sub_handler 0 40 ''up'' (Some [5]) 1 None, Free [5]] \<and>
   initialized demo_bus \<and> CHR ''.'' \<in> set (event_key ''wifi.sta'' ''up'') \<and>
   esp_bus_emit demo_bus True True (Some ''wifi.sta'') (Some ''up'') (Some [5]) 1 =
     (ESP_OK, demo_bus\<lparr>queue := [demo_evt ''wifi.sta:up'']\<rparr>, [Malloc [5]])"
  using event_not_reparsed_is_dropped [where msg = "demo_evt ''wifi.sta:up''" and st = demo_bus
      and p = "''wifi.sta:up''" and src = "''wifi.sta''" and evt = "''up''" and malloc_ok = True
      and data = "Some [5]" and len = 1 and st' = demo_bus]
  by (simp add: demo_simps demo_evt_def event_key_def free_data_def process_message_def
       esp_bus_parse_pattern_def esp_bus_dispatch_event_def esp_bus_emit_def Let_def star_def)

end
